theory Spec2Isabelle
  imports Main "HOL-Library.Sublist"
begin

section \<open>Values shared by the package\<close>

text \<open>
  The package is a typed client for a web API: each method validates its argument
  (go-playground/validator), calls the HTTP transport, decodes the JSON body
  (encoding/json) and validates the decoded value. The methods are modelled as the
  source writes them. The libraries they call are modelled on syntax trees, by the
  documented rules of encoding/json and of the validator's tags; the transport, whose
  code is not among the sources, is a parameter of every method.
\<close>

subsection \<open>JSON documents\<close>

text \<open>
  A JSON text as its syntax tree. A number keeps its literal, since what it decodes to
  depends on the Go type that receives it. The members of an object are kept in the
  order of the text. Strings are the decoded (unescaped) byte strings.
\<close>

datatype json =
    JNull
  | JBool bool
  | JNumber string
  | JString string
  | JArray "json list"
  | JObject "(string \<times> json) list"

text \<open>The word encoding/json uses for a value in an \<open>UnmarshalTypeError\<close>.\<close>

fun json_kind :: "json \<Rightarrow> string" where
  "json_kind JNull = ''null''"
| "json_kind (JBool b) = ''bool''"
| "json_kind (JNumber lit) = ''number''"
| "json_kind (JString s) = ''string''"
| "json_kind (JArray vs) = ''array''"
| "json_kind (JObject ms) = ''object''"

subsection \<open>Errors\<close>

text \<open>
  Go's \<open>error\<close> values that the package returns. \<open>Errorf p e\<close> is
  \<open>fmt.Errorf(p + ": %w", e)\<close>: its text is \<open>p\<close>, a colon, a space and the
  text of \<open>e\<close>, and it unwraps to \<open>e\<close>. \<open>TransportError\<close> and
  \<open>HTTPStatusError\<close> are what the transport returns (a connection failure, a
  response outside 2xx with its status and body). \<open>SyntaxError\<close> is what
  encoding/json returns for a text that is not JSON (a truncated one included),
  \<open>UnmarshalTypeError v t\<close> for a JSON value \<open>v\<close> that the Go type
  \<open>t\<close> cannot receive, \<open>UnmarshalerError\<close> what a type's own
  \<open>UnmarshalJSON\<close> returns. \<open>InvalidValidationError\<close> and
  \<open>ValidationErrors\<close> are the validator's: the second lists every field that
  failed with the tag it failed on. \<open>ErrMalformedAmount\<close> and
  \<open>ErrUnknownCurrency\<close> are the two errors of the currency parser.
\<close>

datatype error =
    TransportError string
  | HTTPStatusError nat string
  | SyntaxError
  | UnmarshalTypeError string string
  | UnmarshalerError string
  | InvalidValidationError string
  | ValidationErrors "(string \<times> string) list"
  | ErrMalformedAmount
  | ErrUnknownCurrency
  | Errorf string error

text \<open>\<open>errors.Unwrap\<close>.\<close>

fun Unwrap :: "error \<Rightarrow> error option" where
  "Unwrap (Errorf p e) = Some e"
| "Unwrap e = None"

text \<open>
  \<open>err.Error()\<close>. The text of an error made outside the package is not fixed by
  the sources: \<open>leaf\<close> gives it.
\<close>

fun Error_text :: "(error \<Rightarrow> string) \<Rightarrow> error \<Rightarrow> string" where
  "Error_text leaf (Errorf p e) = p @ '': '' @ Error_text leaf e"
| "Error_text leaf e = leaf e"

subsection \<open>Decimal text of integers\<close>

text \<open>The verb \<open>%d\<close> of fmt and the numbers of \<open>json.Marshal\<close>.\<close>

definition digit_char :: "nat \<Rightarrow> char" where
  "digit_char n = ''0123456789'' ! (n mod 10)"

fun nat_digits :: "nat \<Rightarrow> string" where
  "nat_digits n = (if n < 10 then [digit_char n] else nat_digits (n div 10) @ [digit_char n])"

definition itoa :: "int \<Rightarrow> string" where
  "itoa i = (if i < 0 then CHR ''-'' # nat_digits (nat (- i)) else nat_digits (nat i))"

section \<open>Transaction filters\<close>

record TransactionFilters =
  TagID :: int
  RecurringID :: int
  PlaidAccountID :: int
  CategoryID :: int
  AssetID :: int
  Offset :: int
  Limit :: int
  StartDate :: string
  EndDate :: string
  DebitAsNegative :: bool

text \<open>
  \<open>json.Marshal(r)\<close> for a \<open>*TransactionFilters\<close>: an object with one
  member for each field, in the order of the declaration, under the name of its
  \<open>json\<close> tag. No tag says \<open>omitempty\<close>, so every field is written, the
  zero ones too; an \<open>int64\<close> is written as a JSON number, a \<open>bool\<close> as
  \<open>true\<close> or \<open>false\<close>, a string as a JSON string (Go strings are taken
  to be valid UTF-8, which Marshal and the parser give back unchanged). Marshal has no
  error for this type.
\<close>

definition Marshal_TransactionFilters :: "TransactionFilters \<Rightarrow> json" where
  "Marshal_TransactionFilters r = JObject
     [(''tag_id'', JNumber (itoa (TagID r))),
      (''recurring_id'', JNumber (itoa (RecurringID r))),
      (''plaid_account_id'', JNumber (itoa (PlaidAccountID r))),
      (''category_id'', JNumber (itoa (CategoryID r))),
      (''asset_id'', JNumber (itoa (AssetID r))),
      (''offset'', JNumber (itoa (Offset r))),
      (''limit'', JNumber (itoa (Limit r))),
      (''start_date'', JString (StartDate r)),
      (''end_date'', JString (EndDate r)),
      (''debit_as_negative'', JBool (DebitAsNegative r))]"

text \<open>\<open>d.saveError\<close> of encoding/json: the first error is the one kept.\<close>

definition saveError :: "error \<Rightarrow> error option \<Rightarrow> error option" where
  "saveError e saved = (case saved of None \<Rightarrow> Some e | Some e0 \<Rightarrow> Some e0)"

text \<open>
  \<open>json.Unmarshal(b, &ret)\<close> for a \<open>map[string]string\<close>. Each member of
  the object is stored under its key: a JSON string as it is, \<open>null\<close> as the
  empty string. Any other value cannot be received by a Go string: the key is stored
  with the empty string, the \<open>UnmarshalTypeError\<close> is saved, and decoding goes on;
  the saved error is returned at the end. \<open>None\<close> is the nil map.
\<close>

fun store_map_members ::
  "(string \<times> json) list \<Rightarrow> (string \<rightharpoonup> string) \<Rightarrow> error option
     \<Rightarrow> (string \<rightharpoonup> string) \<times> error option" where
  "store_map_members [] m saved = (m, saved)"
| "store_map_members ((k, v) # ms) m saved =
     (case v of
        JString s \<Rightarrow> store_map_members ms (m(k \<mapsto> s)) saved
      | JNull \<Rightarrow> store_map_members ms (m(k \<mapsto> [])) saved
      | _ \<Rightarrow> store_map_members ms (m(k \<mapsto> []))
               (saveError (UnmarshalTypeError (json_kind v) ''string'') saved))"

fun Unmarshal_map ::
  "json \<Rightarrow> (string \<rightharpoonup> string) option \<Rightarrow> (string \<rightharpoonup> string) option \<times> error option" where
  "Unmarshal_map (JObject ms) ret =
     (case store_map_members ms (case ret of None \<Rightarrow> Map.empty | Some m \<Rightarrow> m) None of
        (m, saved) \<Rightarrow> (Some m, saved))"
| "Unmarshal_map JNull ret = (None, None)"
| "Unmarshal_map v ret = (ret, Some (UnmarshalTypeError (json_kind v) ''map[string]string''))"

text \<open>
  \<open>TransactionFilters.ToMap\<close>: the map and the error it returns (\<open>None\<close>
  is nil). Marshal cannot fail here, so its error branch is not a branch of the model.
\<close>

definition ToMap :: "TransactionFilters \<Rightarrow> (string \<rightharpoonup> string) option \<times> error option" where
  "ToMap r =
     (let ret = Some Map.empty;
          b = Marshal_TransactionFilters r
      in case Unmarshal_map b ret of
           (ret', Some err) \<Rightarrow> (None, Some err)
         | (ret', None) \<Rightarrow> (ret', None))"

text \<open>The filters with every field at its zero value: \<open>TransactionFilters{}\<close>.\<close>

definition zero_TransactionFilters :: TransactionFilters where
  "zero_TransactionFilters =
     \<lparr>TagID = 0, RecurringID = 0, PlaidAccountID = 0, CategoryID = 0, AssetID = 0,
      Offset = 0, Limit = 0, StartDate = [], EndDate = [], DebitAsNegative = False\<rparr>"

section \<open>Records of the API\<close>

text \<open>
  A Go pointer field is an \<open>option\<close> (\<open>None\<close> is nil); \<open>int\<close> and
  \<open>int64\<close> are 64-bit and modelled as \<open>int\<close>, with the range checked
  where a value is made (no method computes with them). \<open>time.Time\<close> and
  \<open>float64\<close> are the type parameters \<open>'t\<close> and \<open>'f\<close>: the package
  only stores such values.
\<close>

record Transaction =
  ID :: int
  Date :: string
  Payee :: string
  Amount :: string
  Currency :: string
  Notes :: string
  CategoryID :: int
  RecurringID :: int
  AssetID :: int
  PlaidAccountID :: int
  Status :: string
  IsGroup :: bool
  GroupID :: int
  ParentID :: int
  ExternalID :: int

record TransactionsResponse =
  Transactions :: "Transaction option list option"

record UpdateTransaction =
  Date :: "string option"
  CategoryID :: "int option"
  Payee :: "string option"
  Currency :: "string option"
  AssetID :: "int option"
  RecurringID :: "int option"
  Notes :: "string option"
  Status :: "string option"
  ExternalID :: "string option"

record UpdateRequest =
  Transaction :: "UpdateTransaction option"

record UpdateTransactionResp =
  Updated :: bool
  Split :: "int list option"

record ('t, 'f) Crypto =
  ID :: "int option"
  ZaboAccountID :: "int option"
  Source :: string
  Name :: string
  DisplayName :: "string option"
  Balance :: string
  BalanceAsOf :: 't
  Currency :: string
  Status :: string
  InstitutionName :: "string option"
  CreatedAt :: 't
  ToBase :: "'f option"

record ('t, 'f) CryptoResponse =
  Crypto :: "('t, 'f) Crypto option list option"

record UpdateCrypto =
  Name :: "string option"
  DisplayName :: "string option"
  InstitutionName :: "string option"
  Balance :: "string option"
  Currency :: "string option"

section \<open>Validation\<close>

subsection \<open>The tag \<open>datetime=2006-01-02\<close>\<close>

text \<open>
  The validator accepts the field when \<open>time.Parse("2006-01-02", value)\<close>
  returns no error. For this layout \<open>time.Parse\<close> reads a year of exactly four
  digits, a hyphen, a month of exactly two digits between 01 and 12, a hyphen and a day
  of exactly two digits, refuses any text left over, and then refuses a day that the
  month of that year does not have.
\<close>

definition isDigit :: "char \<Rightarrow> bool" where
  "isDigit c = (c \<in> set ''0123456789'')"

definition digit_val :: "char \<Rightarrow> nat" where
  "digit_val c = of_char c - 48"

fun long_year :: "string \<Rightarrow> (nat \<times> string) option" where
  "long_year (a # b # c # d # rest) =
     (if isDigit a \<and> isDigit b \<and> isDigit c \<and> isDigit d
      then Some (digit_val a * 1000 + digit_val b * 100 + digit_val c * 10 + digit_val d, rest)
      else None)"
| "long_year s = None"

fun getnum_fixed :: "string \<Rightarrow> (nat \<times> string) option" where
  "getnum_fixed (a # b # rest) =
     (if isDigit a \<and> isDigit b then Some (digit_val a * 10 + digit_val b, rest) else None)"
| "getnum_fixed s = None"

fun skip_char :: "char \<Rightarrow> string \<Rightarrow> string option" where
  "skip_char p (x # rest) = (if x = p then Some rest else None)"
| "skip_char p [] = None"

definition isLeap :: "nat \<Rightarrow> bool" where
  "isLeap year = (year mod 4 = 0 \<and> (0 < year mod 100 \<or> year mod 400 = 0))"

definition daysIn :: "nat \<Rightarrow> nat \<Rightarrow> nat" where
  "daysIn month year =
     (if month = 2 then (if isLeap year then 29 else 28)
      else if month = 4 \<or> month = 6 \<or> month = 9 \<or> month = 11 then 30
      else 31)"

text \<open>The year, month and day that \<open>time.Parse\<close> reads, \<open>None\<close> for an error.\<close>

definition Parse_2006_01_02 :: "string \<Rightarrow> (nat \<times> nat \<times> nat) option" where
  "Parse_2006_01_02 s =
     (case long_year s of None \<Rightarrow> None | Some (year, s1) \<Rightarrow>
      case skip_char CHR ''-'' s1 of None \<Rightarrow> None | Some s2 \<Rightarrow>
      case getnum_fixed s2 of None \<Rightarrow> None | Some (month, s3) \<Rightarrow>
      if month < 1 \<or> 12 < month then None else
      case skip_char CHR ''-'' s3 of None \<Rightarrow> None | Some s4 \<Rightarrow>
      case getnum_fixed s4 of None \<Rightarrow> None | Some (day, s5) \<Rightarrow>
      if s5 = [] then (if day < 1 \<or> daysIn month year < day then None else Some (year, month, day))
      else None)"

definition isDatetime :: "string \<Rightarrow> bool" where
  "isDatetime s = (case Parse_2006_01_02 s of None \<Rightarrow> False | Some d \<Rightarrow> True)"

text \<open>The tag \<open>oneof=cleared uncleared\<close>.\<close>

definition isOneOf :: "string list \<Rightarrow> string \<Rightarrow> bool" where
  "isOneOf vals s = (s \<in> set vals)"

subsection \<open>\<open>validate.Struct\<close> on the types of the package\<close>

text \<open>
  \<open>validate.Struct\<close> checks each field that carries a \<open>validate\<close> tag and
  returns every failure together, as \<open>ValidationErrors\<close>, or nil when there is
  none. \<open>omitempty\<close> passes a field at its zero value, \<open>omitnil\<close> a nil
  pointer; a pointer that is not nil is checked through. A field with no tag is not
  checked, and a slice is not entered without the tag \<open>dive\<close>. A nil pointer
  given to \<open>Struct\<close> itself is an \<open>InvalidValidationError\<close>. The option
  \<open>WithRequiredStructEnabled\<close> changes how the \<open>required\<close> tags treat
  fields of struct type; no type of the package has such a tag.
\<close>

definition field_errors :: "(string \<times> string) list \<Rightarrow> error option" where
  "field_errors errs = (if errs = [] then None else Some (ValidationErrors errs))"

definition omitempty_datetime :: "string \<Rightarrow> string \<Rightarrow> (string \<times> string) list" where
  "omitempty_datetime field s =
     (if s = [] then [] else if isDatetime s then [] else [(field, ''datetime'')])"

definition omitnil_datetime :: "string \<Rightarrow> string option \<Rightarrow> (string \<times> string) list" where
  "omitnil_datetime field p =
     (case p of None \<Rightarrow> []
      | Some s \<Rightarrow> if isDatetime s then [] else [(field, ''datetime'')])"

definition omitnil_oneof :: "string \<Rightarrow> string list \<Rightarrow> string option \<Rightarrow> (string \<times> string) list" where
  "omitnil_oneof field vals p =
     (case p of None \<Rightarrow> []
      | Some s \<Rightarrow> if isOneOf vals s then [] else [(field, ''oneof'')])"

definition Struct_TransactionFilters :: "TransactionFilters \<Rightarrow> error option" where
  "Struct_TransactionFilters f =
     field_errors (omitempty_datetime ''StartDate'' (StartDate f)
                   @ omitempty_datetime ''EndDate'' (EndDate f))"

definition Struct_Transaction :: "Transaction \<Rightarrow> error option" where
  "Struct_Transaction t = field_errors (omitempty_datetime ''Date'' (Transaction.Date t))"

definition Struct_TransactionsResponse :: "TransactionsResponse \<Rightarrow> error option" where
  "Struct_TransactionsResponse resp = field_errors []"

definition Struct_CryptoResponse :: "('t, 'f) CryptoResponse \<Rightarrow> error option" where
  "Struct_CryptoResponse resp = field_errors []"

definition Struct_UpdateTransaction :: "UpdateTransaction option \<Rightarrow> error option" where
  "Struct_UpdateTransaction ut =
     (case ut of
        None \<Rightarrow> Some (InvalidValidationError ''*lunchmoney.UpdateTransaction'')
      | Some u \<Rightarrow>
          field_errors (omitnil_datetime ''Date'' (UpdateTransaction.Date u)
                        @ omitnil_oneof ''Status'' [''cleared'', ''uncleared'']
                            (UpdateTransaction.Status u)))"

definition Struct_UpdateCrypto :: "UpdateCrypto option \<Rightarrow> error option" where
  "Struct_UpdateCrypto crypto =
     (case crypto of
        None \<Rightarrow> Some (InvalidValidationError ''*lunchmoney.UpdateCrypto'')
      | Some u \<Rightarrow> field_errors [])"

section \<open>Decoding a response body\<close>

text \<open>
  \<open>json.NewDecoder(body).Decode(resp)\<close> first reads one JSON value from the
  body, and fails there when the text is not JSON; then it stores the value in
  \<open>resp\<close>. The first step is not modelled below the syntax tree: a body is either
  \<open>Malformed\<close> or the \<open>Document\<close> it holds.
\<close>

datatype body = Malformed | Document json

text \<open>
  What the package needs of the standard library for the two types it only stores:
  the zero \<open>time.Time\<close>, \<open>Time.UnmarshalJSON\<close> (given the JSON value and
  the time it would overwrite), the \<open>float64\<close> zero and
  \<open>strconv.ParseFloat\<close> on the literal of a JSON number (\<open>None\<close> when the
  number is out of range).
\<close>

record ('t, 'f) stdlib =
  Time_zero :: 't
  Time_UnmarshalJSON :: "json \<Rightarrow> 't \<Rightarrow> error + 't"
  Float_zero :: 'f
  ParseFloat :: "string \<Rightarrow> 'f option"

text \<open>
  Storing a JSON value in a Go value of a given type: the result is the new Go value
  and the error saved so far, or \<open>Inl\<close> when decoding stops at once. A value of the
  wrong kind leaves the target as it was and saves an \<open>UnmarshalTypeError\<close>; the
  decoder goes on and returns the first saved error at the end. \<open>null\<close> leaves a
  target that is not a pointer, a slice or a map as it was. Only an error of
  \<open>UnmarshalJSON\<close> stops the decoding. (A target that a failed store allocated is
  never read: every method returns nil when \<open>Decode\<close> returns an error.)
\<close>

type_synonym 'a store = "json \<Rightarrow> 'a \<Rightarrow> error option \<Rightarrow> error + ('a \<times> error option)"

definition mismatch :: "string \<Rightarrow> json \<Rightarrow> 'a \<Rightarrow> error option \<Rightarrow> error + ('a \<times> error option)" where
  "mismatch go_type v x saved = Inr (x, saveError (UnmarshalTypeError (json_kind v) go_type) saved)"

definition store_string :: "string store" where
  "store_string v x saved =
     (case v of JString s \<Rightarrow> Inr (s, saved) | JNull \<Rightarrow> Inr (x, saved)
      | _ \<Rightarrow> mismatch ''string'' v x saved)"

definition store_bool :: "bool store" where
  "store_bool v x saved =
     (case v of JBool b \<Rightarrow> Inr (b, saved) | JNull \<Rightarrow> Inr (x, saved)
      | _ \<Rightarrow> mismatch ''bool'' v x saved)"

text \<open>\<open>strconv.ParseInt(lit, 10, 64)\<close>.\<close>

fun split_sign :: "string \<Rightarrow> bool \<times> string" where
  "split_sign (c # r) =
     (if c = CHR ''-'' then (True, r) else if c = CHR ''+'' then (False, r) else (False, c # r))"
| "split_sign [] = (False, [])"

definition digits_val :: "string \<Rightarrow> nat" where
  "digits_val ds = foldl (\<lambda>n c. n * 10 + digit_val c) 0 ds"

definition ParseInt64 :: "string \<Rightarrow> int option" where
  "ParseInt64 lit =
     (case split_sign lit of (neg, ds) \<Rightarrow>
        if ds = [] then None
        else if list_all isDigit ds then
          (if neg then (if digits_val ds \<le> 2 ^ 63 then Some (- int (digits_val ds)) else None)
           else (if digits_val ds < 2 ^ 63 then Some (int (digits_val ds)) else None))
        else None)"

definition store_int :: "string \<Rightarrow> int store" where
  "store_int go_type v x saved =
     (case v of
        JNumber lit \<Rightarrow>
          (case ParseInt64 lit of
             Some n \<Rightarrow> Inr (n, saved)
           | None \<Rightarrow> Inr (x, saveError (UnmarshalTypeError (''number '' @ lit) go_type) saved))
      | JNull \<Rightarrow> Inr (x, saved)
      | _ \<Rightarrow> mismatch go_type v x saved)"

definition store_float64 :: "('t, 'f) stdlib \<Rightarrow> 'f store" where
  "store_float64 lib v x saved =
     (case v of
        JNumber lit \<Rightarrow>
          (case ParseFloat lib lit of
             Some n \<Rightarrow> Inr (n, saved)
           | None \<Rightarrow> Inr (x, saveError (UnmarshalTypeError (''number '' @ lit) ''float64'') saved))
      | JNull \<Rightarrow> Inr (x, saved)
      | _ \<Rightarrow> mismatch ''float64'' v x saved)"

definition store_time :: "('t, 'f) stdlib \<Rightarrow> 't store" where
  "store_time lib v x saved =
     (case Time_UnmarshalJSON lib v x of Inl e \<Rightarrow> Inl e | Inr t \<Rightarrow> Inr (t, saved))"

text \<open>
  A pointer: \<open>null\<close> sets it to nil; any other value is stored in what it points
  to, a new zero value when the pointer is nil.
\<close>

definition into :: "('a \<Rightarrow> 'b) \<Rightarrow> error + ('a \<times> error option) \<Rightarrow> error + ('b \<times> error option)" where
  "into f r = (case r of Inl e \<Rightarrow> Inl e | Inr (x, saved) \<Rightarrow> Inr (f x, saved))"

definition store_pointer :: "'a store \<Rightarrow> 'a \<Rightarrow> 'a option store" where
  "store_pointer st zero v p saved =
     (case v of
        JNull \<Rightarrow> Inr (None, saved)
      | _ \<Rightarrow> into Some (st v (case p of None \<Rightarrow> zero | Some x \<Rightarrow> x) saved))"

text \<open>
  A slice: \<open>null\<close> sets it to nil; an array resets it to length zero and appends
  each element, stored in a new zero element, so that the empty array gives a slice
  that is empty and not nil.
\<close>

fun store_elements ::
  "'a store \<Rightarrow> 'a \<Rightarrow> json list \<Rightarrow> error option \<Rightarrow> error + ('a list \<times> error option)" where
  "store_elements st zero [] saved = Inr ([], saved)"
| "store_elements st zero (v # vs) saved =
     (case st v zero saved of
        Inl e \<Rightarrow> Inl e
      | Inr (x, saved') \<Rightarrow> into (\<lambda>xs. x # xs) (store_elements st zero vs saved'))"

definition store_slice :: "string \<Rightarrow> 'a store \<Rightarrow> 'a \<Rightarrow> 'a list option store" where
  "store_slice go_type st zero v xs saved =
     (case v of
        JNull \<Rightarrow> Inr (None, saved)
      | JArray vs \<Rightarrow> into Some (store_elements st zero vs saved)
      | _ \<Rightarrow> mismatch go_type v xs saved)"

text \<open>
  A struct: each member of the object, in order, is stored in the field whose
  \<open>json\<close> name the key matches; a key that matches no field is skipped. The match
  is exact or, failing that, by case folding: \<open>foldName\<close> maps ASCII letters to
  upper case and the two other characters that fold to an ASCII letter (U+017F to S,
  U+212A to K); no other character can match the ASCII names of the package, so it is
  left as it is. The folded names of the fields of each struct differ, so the folded
  match finds the field of an exact match too.
\<close>

definition upper :: "char \<Rightarrow> char" where
  "upper c = (case map_of (zip ''abcdefghijklmnopqrstuvwxyz'' ''ABCDEFGHIJKLMNOPQRSTUVWXYZ'') c of
                None \<Rightarrow> c | Some u \<Rightarrow> u)"

fun foldName :: "string \<Rightarrow> string" where
  "foldName (a # b # c # rest) =
     (if a = CHR 0xE2 \<and> b = CHR 0x84 \<and> c = CHR 0xAA then CHR ''K'' # foldName rest
      else if a = CHR 0xC5 \<and> b = CHR 0xBF then CHR ''S'' # foldName (c # rest)
      else upper a # foldName (b # c # rest))"
| "foldName [a, b] = (if a = CHR 0xC5 \<and> b = CHR 0xBF then ''S'' else [upper a, upper b])"
| "foldName [a] = [upper a]"
| "foldName [] = []"

fun store_members ::
  "(string \<Rightarrow> 's store) \<Rightarrow> (string \<times> json) list \<Rightarrow> 's \<Rightarrow> error option
     \<Rightarrow> error + ('s \<times> error option)" where
  "store_members field [] s saved = Inr (s, saved)"
| "store_members field ((k, v) # ms) s saved =
     (case field (foldName k) v s saved of
        Inl e \<Rightarrow> Inl e
      | Inr (s', saved') \<Rightarrow> store_members field ms s' saved')"

definition store_struct :: "string \<Rightarrow> (string \<Rightarrow> 's store) \<Rightarrow> 's store" where
  "store_struct go_type field v s saved =
     (case v of
        JObject ms \<Rightarrow> store_members field ms s saved
      | JNull \<Rightarrow> Inr (s, saved)
      | _ \<Rightarrow> mismatch go_type v s saved)"

text \<open>\<open>Decode\<close> into a pointer to a fresh value \<open>zero\<close>.\<close>

definition Decode :: "'s store \<Rightarrow> 's \<Rightarrow> body \<Rightarrow> error + 's" where
  "Decode st zero b =
     (case b of
        Malformed \<Rightarrow> Inl SyntaxError
      | Document v \<Rightarrow>
          (case st v zero None of
             Inl e \<Rightarrow> Inl e
           | Inr (s, Some e) \<Rightarrow> Inl e
           | Inr (s, None) \<Rightarrow> Inr s))"

subsection \<open>The response types\<close>

text \<open>The fields by their \<open>json\<close> tags; \<open>k\<close> is the folded key.\<close>

definition zero_Transaction :: Transaction where
  "zero_Transaction =
     \<lparr>Transaction.ID = 0, Transaction.Date = [], Transaction.Payee = [],
      Transaction.Amount = [], Transaction.Currency = [], Transaction.Notes = [],
      Transaction.CategoryID = 0, Transaction.RecurringID = 0, Transaction.AssetID = 0,
      Transaction.PlaidAccountID = 0, Transaction.Status = [], Transaction.IsGroup = False,
      Transaction.GroupID = 0, Transaction.ParentID = 0, Transaction.ExternalID = 0\<rparr>"

definition Transaction_field :: "string \<Rightarrow> Transaction store" where
  "Transaction_field k v t saved =
     (if k = foldName ''id'' then
        into (\<lambda>x. t\<lparr>Transaction.ID := x\<rparr>) (store_int ''int64'' v (Transaction.ID t) saved)
      else if k = foldName ''date'' then
        into (\<lambda>x. t\<lparr>Transaction.Date := x\<rparr>) (store_string v (Transaction.Date t) saved)
      else if k = foldName ''payee'' then
        into (\<lambda>x. t\<lparr>Transaction.Payee := x\<rparr>) (store_string v (Transaction.Payee t) saved)
      else if k = foldName ''amount'' then
        into (\<lambda>x. t\<lparr>Transaction.Amount := x\<rparr>) (store_string v (Transaction.Amount t) saved)
      else if k = foldName ''currency'' then
        into (\<lambda>x. t\<lparr>Transaction.Currency := x\<rparr>) (store_string v (Transaction.Currency t) saved)
      else if k = foldName ''notes'' then
        into (\<lambda>x. t\<lparr>Transaction.Notes := x\<rparr>) (store_string v (Transaction.Notes t) saved)
      else if k = foldName ''category_id'' then
        into (\<lambda>x. t\<lparr>Transaction.CategoryID := x\<rparr>)
          (store_int ''int64'' v (Transaction.CategoryID t) saved)
      else if k = foldName ''recurring_id'' then
        into (\<lambda>x. t\<lparr>Transaction.RecurringID := x\<rparr>)
          (store_int ''int64'' v (Transaction.RecurringID t) saved)
      else if k = foldName ''asset_id'' then
        into (\<lambda>x. t\<lparr>Transaction.AssetID := x\<rparr>)
          (store_int ''int64'' v (Transaction.AssetID t) saved)
      else if k = foldName ''plaid_account_id'' then
        into (\<lambda>x. t\<lparr>Transaction.PlaidAccountID := x\<rparr>)
          (store_int ''int64'' v (Transaction.PlaidAccountID t) saved)
      else if k = foldName ''status'' then
        into (\<lambda>x. t\<lparr>Transaction.Status := x\<rparr>) (store_string v (Transaction.Status t) saved)
      else if k = foldName ''is_group'' then
        into (\<lambda>x. t\<lparr>Transaction.IsGroup := x\<rparr>) (store_bool v (Transaction.IsGroup t) saved)
      else if k = foldName ''group_id'' then
        into (\<lambda>x. t\<lparr>Transaction.GroupID := x\<rparr>)
          (store_int ''int64'' v (Transaction.GroupID t) saved)
      else if k = foldName ''parent_id'' then
        into (\<lambda>x. t\<lparr>Transaction.ParentID := x\<rparr>)
          (store_int ''int64'' v (Transaction.ParentID t) saved)
      else if k = foldName ''external_id'' then
        into (\<lambda>x. t\<lparr>Transaction.ExternalID := x\<rparr>)
          (store_int ''int64'' v (Transaction.ExternalID t) saved)
      else Inr (t, saved))"

definition store_Transaction :: "Transaction store" where
  "store_Transaction = store_struct ''lunchmoney.Transaction'' Transaction_field"

definition TransactionsResponse_field :: "string \<Rightarrow> TransactionsResponse store" where
  "TransactionsResponse_field k v r saved =
     (if k = foldName ''transactions'' then
        into (\<lambda>x. r\<lparr>Transactions := x\<rparr>)
          (store_slice ''[]*lunchmoney.Transaction''
             (store_pointer store_Transaction zero_Transaction) None v (Transactions r) saved)
      else Inr (r, saved))"

definition Decode_TransactionsResponse :: "body \<Rightarrow> error + TransactionsResponse" where
  "Decode_TransactionsResponse =
     Decode (store_struct ''lunchmoney.TransactionsResponse'' TransactionsResponse_field)
       \<lparr>Transactions = None\<rparr>"

definition Decode_Transaction :: "body \<Rightarrow> error + Transaction" where
  "Decode_Transaction = Decode store_Transaction zero_Transaction"

definition UpdateTransactionResp_field :: "string \<Rightarrow> UpdateTransactionResp store" where
  "UpdateTransactionResp_field k v r saved =
     (if k = foldName ''updated'' then
        into (\<lambda>x. r\<lparr>Updated := x\<rparr>) (store_bool v (Updated r) saved)
      else if k = foldName ''split'' then
        into (\<lambda>x. r\<lparr>Split := x\<rparr>)
          (store_slice ''[]int'' (store_int ''int'') 0 v (Split r) saved)
      else Inr (r, saved))"

definition Decode_UpdateTransactionResp :: "body \<Rightarrow> error + UpdateTransactionResp" where
  "Decode_UpdateTransactionResp =
     Decode (store_struct ''lunchmoney.UpdateTransactionResp'' UpdateTransactionResp_field)
       \<lparr>Updated = False, Split = None\<rparr>"

definition zero_Crypto :: "('t, 'f) stdlib \<Rightarrow> ('t, 'f) Crypto" where
  "zero_Crypto lib =
     \<lparr>Crypto.ID = None, Crypto.ZaboAccountID = None, Crypto.Source = [], Crypto.Name = [],
      Crypto.DisplayName = None, Crypto.Balance = [], Crypto.BalanceAsOf = Time_zero lib,
      Crypto.Currency = [], Crypto.Status = [], Crypto.InstitutionName = None,
      Crypto.CreatedAt = Time_zero lib, Crypto.ToBase = None\<rparr>"

definition Crypto_field :: "('t, 'f) stdlib \<Rightarrow> string \<Rightarrow> ('t, 'f) Crypto store" where
  "Crypto_field lib k v c saved =
     (if k = foldName ''id'' then
        into (\<lambda>x. c\<lparr>Crypto.ID := x\<rparr>)
          (store_pointer (store_int ''int'') 0 v (Crypto.ID c) saved)
      else if k = foldName ''zabo_account_id'' then
        into (\<lambda>x. c\<lparr>Crypto.ZaboAccountID := x\<rparr>)
          (store_pointer (store_int ''int'') 0 v (Crypto.ZaboAccountID c) saved)
      else if k = foldName ''source'' then
        into (\<lambda>x. c\<lparr>Crypto.Source := x\<rparr>) (store_string v (Crypto.Source c) saved)
      else if k = foldName ''name'' then
        into (\<lambda>x. c\<lparr>Crypto.Name := x\<rparr>) (store_string v (Crypto.Name c) saved)
      else if k = foldName ''display_name'' then
        into (\<lambda>x. c\<lparr>Crypto.DisplayName := x\<rparr>)
          (store_pointer store_string [] v (Crypto.DisplayName c) saved)
      else if k = foldName ''balance'' then
        into (\<lambda>x. c\<lparr>Crypto.Balance := x\<rparr>) (store_string v (Crypto.Balance c) saved)
      else if k = foldName ''balance_as_of'' then
        into (\<lambda>x. c\<lparr>Crypto.BalanceAsOf := x\<rparr>) (store_time lib v (Crypto.BalanceAsOf c) saved)
      else if k = foldName ''currency'' then
        into (\<lambda>x. c\<lparr>Crypto.Currency := x\<rparr>) (store_string v (Crypto.Currency c) saved)
      else if k = foldName ''status'' then
        into (\<lambda>x. c\<lparr>Crypto.Status := x\<rparr>) (store_string v (Crypto.Status c) saved)
      else if k = foldName ''institution_name'' then
        into (\<lambda>x. c\<lparr>Crypto.InstitutionName := x\<rparr>)
          (store_pointer store_string [] v (Crypto.InstitutionName c) saved)
      else if k = foldName ''created_at'' then
        into (\<lambda>x. c\<lparr>Crypto.CreatedAt := x\<rparr>) (store_time lib v (Crypto.CreatedAt c) saved)
      else if k = foldName ''to_base'' then
        into (\<lambda>x. c\<lparr>Crypto.ToBase := x\<rparr>)
          (store_pointer (store_float64 lib) (Float_zero lib) v (Crypto.ToBase c) saved)
      else Inr (c, saved))"

definition store_Crypto :: "('t, 'f) stdlib \<Rightarrow> ('t, 'f) Crypto store" where
  "store_Crypto lib = store_struct ''lunchmoney.Crypto'' (Crypto_field lib)"

definition CryptoResponse_field ::
  "('t, 'f) stdlib \<Rightarrow> string \<Rightarrow> ('t, 'f) CryptoResponse store" where
  "CryptoResponse_field lib k v r saved =
     (if k = foldName ''crypto'' then
        into (\<lambda>x. r\<lparr>Crypto := x\<rparr>)
          (store_slice ''[]*lunchmoney.Crypto''
             (store_pointer (store_Crypto lib) (zero_Crypto lib)) None v (Crypto r) saved)
      else Inr (r, saved))"

definition Decode_CryptoResponse ::
  "('t, 'f) stdlib \<Rightarrow> body \<Rightarrow> error + ('t, 'f) CryptoResponse" where
  "Decode_CryptoResponse lib =
     Decode (store_struct ''lunchmoney.CryptoResponse'' (CryptoResponse_field lib))
       \<lparr>Crypto = None\<rparr>"

definition Decode_Crypto :: "('t, 'f) stdlib \<Rightarrow> body \<Rightarrow> error + ('t, 'f) Crypto" where
  "Decode_Crypto lib = Decode (store_Crypto lib) (zero_Crypto lib)"

section \<open>The client methods\<close>

text \<open>
  The transport of the client: \<open>c.Get(ctx, path, options)\<close> and
  \<open>c.Put(ctx, path, body)\<close> return the response body or an error. Their code is
  not among the sources, so a client is any pair of such functions. The context only
  lets the caller cancel the request, which the transport reports as an error.
\<close>

datatype payload =
    Body_UpdateRequest UpdateRequest
  | Body_UpdateCrypto "UpdateCrypto option"

record Client =
  Get :: "string \<Rightarrow> (string \<rightharpoonup> string) \<Rightarrow> error + body"
  Put :: "string \<Rightarrow> payload \<Rightarrow> error + body"

text \<open>
  What a method does besides returning: the calls it makes to the validator, to the
  transport and to the decoder, in order. \<open>Validate_Struct\<close> and
  \<open>Json_Decode\<close> name the Go type of the value they are given.
\<close>

datatype call =
    Validate_Struct string
  | Http_Get string "string \<rightharpoonup> string"
  | Http_Put string payload
  | Json_Decode string

text \<open>
  A method returns a pair, the result (\<open>None\<close> is nil) and the error (\<open>None\<close>
  is nil); \<open>calls\<close> is the list of the calls it made.
\<close>

record 'a outcome =
  result :: "'a option"
  err :: "error option"
  calls :: "call list"

definition GetCrypto ::
  "('t, 'f) stdlib \<Rightarrow> Client \<Rightarrow> (('t, 'f) Crypto option list) outcome" where
  "GetCrypto lib c =
     (let options = Map.empty;
          sent = [Http_Get ''/v1/crypto'' options]
      in case Get c ''/v1/crypto'' options of
           Inl e \<Rightarrow> \<lparr>result = None, err = Some (Errorf ''get crypto'' e), calls = sent\<rparr>
         | Inr body \<Rightarrow>
             (case Decode_CryptoResponse lib body of
                Inl e \<Rightarrow>
                  \<lparr>result = None, err = Some (Errorf ''decode response'' e),
                   calls = sent @ [Json_Decode ''*lunchmoney.CryptoResponse'']\<rparr>
              | Inr resp \<Rightarrow>
                  (case Struct_CryptoResponse resp of
                     Some e \<Rightarrow>
                       \<lparr>result = None, err = Some e,
                        calls = sent @ [Json_Decode ''*lunchmoney.CryptoResponse'',
                                        Validate_Struct ''*lunchmoney.CryptoResponse'']\<rparr>
                   | None \<Rightarrow>
                       \<lparr>result = Crypto resp, err = None,
                        calls = sent @ [Json_Decode ''*lunchmoney.CryptoResponse'',
                                        Validate_Struct ''*lunchmoney.CryptoResponse'']\<rparr>)))"

definition UpdateManualCrypto ::
  "('t, 'f) stdlib \<Rightarrow> Client \<Rightarrow> int \<Rightarrow> UpdateCrypto option \<Rightarrow> (('t, 'f) Crypto) outcome" where
  "UpdateManualCrypto lib c id' crypto =
     (let checked = [Validate_Struct ''*lunchmoney.UpdateCrypto''] in
      case Struct_UpdateCrypto crypto of
        Some e \<Rightarrow> \<lparr>result = None, err = Some e, calls = checked\<rparr>
      | None \<Rightarrow>
          (let path = ''/v1/crypto/manual/'' @ itoa id';
               sent = checked @ [Http_Put path (Body_UpdateCrypto crypto)]
           in case Put c path (Body_UpdateCrypto crypto) of
                Inl e \<Rightarrow>
                  \<lparr>result = None, err = Some (Errorf (''put crypto '' @ itoa id') e), calls = sent\<rparr>
              | Inr body \<Rightarrow>
                  (case Decode_Crypto lib body of
                     Inl e \<Rightarrow>
                       \<lparr>result = None, err = Some (Errorf ''decode response'' e),
                        calls = sent @ [Json_Decode ''*lunchmoney.Crypto'']\<rparr>
                   | Inr resp \<Rightarrow>
                       \<lparr>result = Some resp, err = None,
                        calls = sent @ [Json_Decode ''*lunchmoney.Crypto'']\<rparr>)))"

text \<open>
  The first block of \<open>GetTransactions\<close> and \<open>GetTransaction\<close>: the query
  options of the request, or the error the method returns before any request, each with
  the calls made. A nil map handed to the transport reads as the empty map.
\<close>

type_synonym prepared = "(error \<times> call list) + ((string \<rightharpoonup> string) \<times> call list)"

definition GetTransactions ::
  "Client \<Rightarrow> TransactionFilters option \<Rightarrow> (Transaction option list) outcome" where
  "GetTransactions c filters =
     (let checked = [Validate_Struct ''*lunchmoney.TransactionFilters''];
          prep = (case filters of
                    None \<Rightarrow> Inr (Map.empty, [])
                  | Some f \<Rightarrow>
                      (case Struct_TransactionFilters f of
                         Some e \<Rightarrow> Inl (e, checked)
                       | None \<Rightarrow>
                           (case ToMap f of
                              (maps, Some e) \<Rightarrow> Inl (Errorf ''convert filters to map'' e, checked)
                            | (maps, None) \<Rightarrow>
                                Inr (case maps of None \<Rightarrow> Map.empty | Some m \<Rightarrow> m, checked))))
      in case prep :: prepared of
           Inl (e, cs) \<Rightarrow> \<lparr>result = None, err = Some e, calls = cs\<rparr>
         | Inr (options, cs) \<Rightarrow>
             (let sent = cs @ [Http_Get ''/v1/transactions'' options] in
              case Get c ''/v1/transactions'' options of
                Inl e \<Rightarrow>
                  \<lparr>result = None, err = Some (Errorf ''get transactions'' e), calls = sent\<rparr>
              | Inr body \<Rightarrow>
                  (case Decode_TransactionsResponse body of
                     Inl e \<Rightarrow>
                       \<lparr>result = None, err = Some (Errorf ''decode response'' e),
                        calls = sent @ [Json_Decode ''*lunchmoney.TransactionsResponse'']\<rparr>
                   | Inr resp \<Rightarrow>
                       (case Struct_TransactionsResponse resp of
                          Some e \<Rightarrow>
                            \<lparr>result = None, err = Some e,
                             calls = sent @ [Json_Decode ''*lunchmoney.TransactionsResponse'',
                                      Validate_Struct ''*lunchmoney.TransactionsResponse'']\<rparr>
                        | None \<Rightarrow>
                            \<lparr>result = Transactions resp, err = None,
                             calls = sent @ [Json_Decode ''*lunchmoney.TransactionsResponse'',
                                      Validate_Struct ''*lunchmoney.TransactionsResponse'']\<rparr>))))"

definition GetTransaction ::
  "Client \<Rightarrow> int \<Rightarrow> TransactionFilters option \<Rightarrow> Transaction outcome" where
  "GetTransaction c id' filters =
     (let checked = [Validate_Struct ''*lunchmoney.TransactionFilters''];
          prep = (case filters of
                    None \<Rightarrow> Inr (Map.empty, [])
                  | Some f \<Rightarrow>
                      (case Struct_TransactionFilters f of
                         Some e \<Rightarrow> Inl (e, checked)
                       | None \<Rightarrow>
                           (case ToMap f of
                              (maps, Some e) \<Rightarrow> Inl (e, checked)
                            | (maps, None) \<Rightarrow>
                                Inr (case maps of None \<Rightarrow> Map.empty | Some m \<Rightarrow> m, checked))))
      in case prep :: prepared of
           Inl (e, cs) \<Rightarrow> \<lparr>result = None, err = Some e, calls = cs\<rparr>
         | Inr (options, cs) \<Rightarrow>
             (let path = ''/v1/transactions/'' @ itoa id';
                  sent = cs @ [Http_Get path options]
              in case Get c path options of
                   Inl e \<Rightarrow>
                     \<lparr>result = None, err = Some (Errorf (''get transaction '' @ itoa id') e),
                      calls = sent\<rparr>
                 | Inr body \<Rightarrow>
                     (case Decode_Transaction body of
                        Inl e \<Rightarrow>
                          \<lparr>result = None, err = Some (Errorf ''decode response'' e),
                           calls = sent @ [Json_Decode ''*lunchmoney.Transaction'']\<rparr>
                      | Inr resp \<Rightarrow>
                          (case Struct_Transaction resp of
                             Some e \<Rightarrow>
                               \<lparr>result = None, err = Some e,
                                calls = sent @ [Json_Decode ''*lunchmoney.Transaction'',
                                         Validate_Struct ''*lunchmoney.Transaction'']\<rparr>
                           | None \<Rightarrow>
                               \<lparr>result = Some resp, err = None,
                                calls = sent @ [Json_Decode ''*lunchmoney.Transaction'',
                                         Validate_Struct ''*lunchmoney.Transaction'']\<rparr>))))"

text \<open>\<open>Client.UpdateTransaction\<close>; the request body is \<open>&UpdateRequest{Transaction: ut}\<close>.\<close>

definition UpdateTransaction ::
  "Client \<Rightarrow> int \<Rightarrow> UpdateTransaction option \<Rightarrow> UpdateTransactionResp outcome" where
  "UpdateTransaction c id' ut =
     (let checked = [Validate_Struct ''*lunchmoney.UpdateTransaction''] in
      case Struct_UpdateTransaction ut of
        Some e \<Rightarrow> \<lparr>result = None, err = Some e, calls = checked\<rparr>
      | None \<Rightarrow>
          (let path = ''/v1/transactions/'' @ itoa id';
               request = Body_UpdateRequest \<lparr>Transaction = ut\<rparr>;
               sent = checked @ [Http_Put path request]
           in case Put c path request of
                Inl e \<Rightarrow>
                  \<lparr>result = None, err = Some (Errorf (''update transaction '' @ itoa id') e),
                   calls = sent\<rparr>
              | Inr body \<Rightarrow>
                  (case Decode_UpdateTransactionResp body of
                     Inl e \<Rightarrow>
                       \<lparr>result = None, err = Some (Errorf ''decode response'' e),
                        calls = sent @ [Json_Decode ''*lunchmoney.UpdateTransactionResp'']\<rparr>
                   | Inr resp \<Rightarrow>
                       \<lparr>result = Some resp, err = None,
                        calls = sent @ [Json_Decode ''*lunchmoney.UpdateTransactionResp'']\<rparr>)))"

subsection \<open>What a method's calls say\<close>

fun is_http :: "call \<Rightarrow> bool" where
  "is_http (Http_Get path options) = True"
| "is_http (Http_Put path b) = True"
| "is_http other = False"

fun is_validation :: "call \<Rightarrow> bool" where
  "is_validation (Validate_Struct go_type) = True"
| "is_validation other = False"

text \<open>What the transport answers to a request a method made.\<close>

fun transport_answer :: "Client \<Rightarrow> call \<Rightarrow> (error + body) option" where
  "transport_answer c (Http_Get path options) = Some (Get c path options)"
| "transport_answer c (Http_Put path b) = Some (Put c path b)"
| "transport_answer c other = None"

text \<open>
  Two clients for concrete runs, as the test server of \<open>crypto_test.go\<close> is: one
  whose transport fails every request with the same error, one whose transport answers
  every request with the same body.
\<close>

definition failing_Client :: "error \<Rightarrow> Client" where
  "failing_Client e = \<lparr>Get = (\<lambda>path options. Inl e), Put = (\<lambda>path b. Inl e)\<rparr>"

definition serving_Client :: "body \<Rightarrow> Client" where
  "serving_Client b = \<lparr>Get = (\<lambda>path options. Inr b), Put = (\<lambda>path x. Inr b)\<rparr>"

text \<open>A standard library for concrete runs: times and floats kept as their JSON values.\<close>

definition json_stdlib :: "(json, string) stdlib" where
  "json_stdlib =
     \<lparr>Time_zero = JNull,
      Time_UnmarshalJSON =
        (\<lambda>v t. case v of JNull \<Rightarrow> Inr t | JString s \<Rightarrow> Inr v
               | _ \<Rightarrow> Inl (UnmarshalerError ''Time.UnmarshalJSON: input is not a JSON string'')),
      Float_zero = ''0'',
      ParseFloat = (\<lambda>lit. Some lit)\<rparr>"

text \<open>The update payloads with every field absent.\<close>

definition empty_UpdateTransaction :: UpdateTransaction where
  "empty_UpdateTransaction =
     \<lparr>UpdateTransaction.Date = None, UpdateTransaction.CategoryID = None,
      UpdateTransaction.Payee = None, UpdateTransaction.Currency = None,
      UpdateTransaction.AssetID = None, UpdateTransaction.RecurringID = None,
      UpdateTransaction.Notes = None, UpdateTransaction.Status = None,
      UpdateTransaction.ExternalID = None\<rparr>"

definition empty_UpdateCrypto :: UpdateCrypto where
  "empty_UpdateCrypto =
     \<lparr>UpdateCrypto.Name = None, UpdateCrypto.DisplayName = None,
      UpdateCrypto.InstitutionName = None, UpdateCrypto.Balance = None,
      UpdateCrypto.Currency = None\<rparr>"

text \<open>
  The pattern \<open>YYYY-MM-DD\<close> in the words of the specification: four digits, a
  hyphen, two digits, a hyphen, two digits.
\<close>

definition matches_YYYY_MM_DD :: "string \<Rightarrow> bool" where
  "matches_YYYY_MM_DD s =
     (length s = 10 \<and> list_all isDigit (take 4 s) \<and> s ! 4 = CHR ''-''
      \<and> list_all isDigit (take 2 (drop 5 s)) \<and> s ! 7 = CHR ''-''
      \<and> list_all isDigit (drop 8 s))"

text \<open>
  The identifier a decoded record holds for the field named \<open>name\<close>, read off the
  members of the server's object: the last member whose key matches decides, an integer
  literal gives its value, \<open>null\<close> or no such member gives nil.
\<close>

fun sent_identifier :: "string \<Rightarrow> (string \<times> json) list \<Rightarrow> int option \<Rightarrow> int option" where
  "sent_identifier name [] cur = cur"
| "sent_identifier name ((k, v) # ms) cur =
     sent_identifier name ms
       (if foldName k = foldName name
        then (case v of JNumber lit \<Rightarrow> ParseInt64 lit | _ \<Rightarrow> None)
        else cur)"

section \<open>Currency parsing\<close>

text \<open>
  \<open>ParseCurrency\<close>, which \<open>Crypto.ParsedAmount\<close> and
  \<open>Transaction.ParsedAmount\<close> call, is not among the sources, and neither is the
  reference table of currencies it consults. The definitions of this section are
  modelled from section 4.1 of the specification (\<open>ParseAmount\<close>); the table
  is a parameter.
\<close>

text \<open>
  Modelled from the spec: the money value, which is not among the sources either: an
  integer of minor units and a currency code.
\<close>

record MonetaryAmount =
  minor_units :: int
  currency_code :: string

text \<open>
  Modelled from the spec: the syntax of the amount, which is not among the sources. A
  decimal numeral is an optional sign, digits, and optionally one decimal point with
  fractional digits. The result is the sign, the integer digits and the fractional
  digits; \<open>None\<close> for any other text.
\<close>

definition decimal_parts :: "string \<Rightarrow> (bool \<times> string \<times> string) option" where
  "decimal_parts s =
     (case split_sign s of (neg, ds) \<Rightarrow>
        if takeWhile isDigit ds = [] then None
        else (case dropWhile isDigit ds of
                [] \<Rightarrow> Some (neg, ds, [])
              | c # fp \<Rightarrow>
                  if c = CHR ''.'' \<and> list_all isDigit fp
                  then Some (neg, takeWhile isDigit ds, fp) else None))"

text \<open>
  Modelled from the spec: the scaling to minor units, which is not among the sources.
  The decimal is multiplied by ten to the number of fraction digits of the currency; the
  specification lets the implementer either reject extra precision or round it half away
  from zero, and its scenario (\<open>1.5\<close> of a currency that may have no fraction
  digit) holds under the rounding, which is the policy taken here.
\<close>

definition scale_half_away :: "nat \<Rightarrow> bool \<times> string \<times> string \<Rightarrow> int" where
  "scale_half_away fd parts =
     (case parts of (neg, ip, fp) \<Rightarrow>
        let n = digits_val (ip @ fp);
            k = length fp;
            m = (if k \<le> fd then n * 10 ^ (fd - k)
                 else n div 10 ^ (k - fd)
                      + (if 10 ^ (k - fd) \<le> 2 * (n mod 10 ^ (k - fd)) then 1 else 0))
        in if neg then - int m else int m)"

text \<open>
  Modelled from the spec: the codes the parser recognises, which are not among the
  sources: the ISO 4217-like codes, three upper-case letters.
\<close>

definition is_currency_code :: "string \<Rightarrow> bool" where
  "is_currency_code code =
     (length code = 3 \<and> list_all (\<lambda>c. c \<in> set ''ABCDEFGHIJKLMNOPQRSTUVWXYZ'') code)"

text \<open>
  Modelled from the spec: \<open>ParseCurrency\<close>, which is not among the sources. Text
  that is not a decimal numeral is \<open>ErrMalformedAmount\<close>; a code that is not
  recognised is \<open>ErrUnknownCurrency\<close>. A recognised code with no entry in the
  reference table (a cryptocurrency ticker) gets the zero-fraction-digit fallback, the
  one of the two alternatives of the specification under which its scenario holds for
  every table.
\<close>

definition ParseCurrency ::
  "(string \<rightharpoonup> nat) \<Rightarrow> string \<Rightarrow> string \<Rightarrow> error + MonetaryAmount" where
  "ParseCurrency table amount code =
     (case decimal_parts amount of
        None \<Rightarrow> Inl ErrMalformedAmount
      | Some parts \<Rightarrow>
          if is_currency_code code
          then Inr \<lparr>minor_units =
                      scale_half_away (case table code of None \<Rightarrow> 0 | Some fd \<Rightarrow> fd) parts,
                    currency_code = code\<rparr>
          else Inl ErrUnknownCurrency)"

text \<open>\<open>Crypto.ParsedAmount\<close>, as the source has it.\<close>

definition ParsedAmount ::
  "(string \<rightharpoonup> nat) \<Rightarrow> ('t, 'f) Crypto \<Rightarrow> error + MonetaryAmount" where
  "ParsedAmount table c = ParseCurrency table (Crypto.Balance c) (Crypto.Currency c)"

section \<open>The vocabulary of the properties\<close>

text \<open>
  A method that reports a failure of the transport: it returns nil with the error of
  the transport wrapped under the name of the operation, and the request \<open>r\<close> is
  the only one it made.
\<close>

definition transport_failure :: "string \<Rightarrow> error \<Rightarrow> call \<Rightarrow> 'a outcome \<Rightarrow> bool" where
  "transport_failure op e r out =
     (result out = None \<and> err out = Some (Errorf op e) \<and> filter is_http (calls out) = [r])"

text \<open>A method that reports a failure of the decoder.\<close>

definition decode_failure :: "error \<Rightarrow> 'a outcome \<Rightarrow> bool" where
  "decode_failure e out = (result out = None \<and> err out = Some (Errorf ''decode response'' e))"

text \<open>
  An element of the server's array and the entry of the returned list at its place: an
  object and a record that holds the identifiers the object sent, or \<open>null\<close> and
  a nil pointer.
\<close>

fun mirrors :: "json \<Rightarrow> ('t, 'f) Crypto option \<Rightarrow> bool" where
  "mirrors (JObject ms) (Some rec) =
     (Crypto.ID rec = sent_identifier ''id'' ms None
      \<and> Crypto.ZaboAccountID rec = sent_identifier ''zabo_account_id'' ms None)"
| "mirrors JNull None = True"
| "mirrors v p = False"

text \<open>The error of the test server that answers 401.\<close>

definition unauthorized :: error where
  "unauthorized = HTTPStatusError 401 ''Unauthorized''"

text \<open>Two answers of the server to the crypto request, for concrete runs.\<close>

definition both_identifiers :: body where
  "both_identifiers = Document (JObject [(''crypto'', JArray
     [JObject [(''id'', JNumber ''1''), (''zabo_account_id'', JNumber ''2''),
               (''source'', JString ''manual'')]])])"

definition mixed_assets :: "json list" where
  "mixed_assets =
     [JObject [(''zabo_account_id'', JNumber ''544''), (''source'', JString ''synced'')],
      JObject [(''id'', JNumber ''152''), (''source'', JString ''manual'')]]"

section \<open>Properties\<close>

subsection \<open>Encoding the filters\<close>

lemma store_map_members_saved:
  "snd (store_map_members ms m (Some e)) = Some e"
  by (induction ms m "Some e" rule: store_map_members.induct)
     (simp_all add: saveError_def split: json.splits)

lemma ToMap_fails: "ToMap r = (None, Some (UnmarshalTypeError ''number'' ''string''))"
  by (simp add: ToMap_def Marshal_TransactionFilters_def saveError_def
      store_map_members_saved [unfolded snd_def] split: prod.splits)

text \<open>
  Claim C1 (the code departs from it). Encoding filters whose fields are all zero
  should succeed with the empty map. The code returns no map and an error for these
  filters, and for every other value of the filters: Marshal writes \<open>tag_id\<close>
  first, as a JSON number, which the \<open>map[string]string\<close> cannot receive.
\<close>

theorem ToMap_always_fails:
  "ToMap r = (None, Some (UnmarshalTypeError ''number'' ''string''))"
  by (rule ToMap_fails)

text \<open>
  Claim C2 (the code departs from it). Filters with exactly one field that is not
  zero should encode to a map with that one entry. For the filters whose only set
  field is \<open>StartDate = "2021-02-10"\<close> the code returns no map and the error
  of the unmarshalling step.
\<close>

theorem ToMap_single_field_fails:
  "ToMap (zero_TransactionFilters\<lparr>StartDate := ''2021-02-10''\<rparr>)
     = (None, Some (UnmarshalTypeError ''number'' ''string''))"
  by (simp add: ToMap_def Marshal_TransactionFilters_def saveError_def
      zero_TransactionFilters_def itoa_def digit_char_def)

subsection \<open>Dates\<close>

lemma long_year_Some:
  "long_year s = Some (y, r) \<Longrightarrow>
     \<exists>a b c d. s = a # b # c # d # r \<and> isDigit a \<and> isDigit b \<and> isDigit c \<and> isDigit d"
  by (erule long_year.elims) (auto split: if_splits)

lemma getnum_fixed_Some:
  "getnum_fixed s = Some (n, r) \<Longrightarrow> \<exists>a b. s = a # b # r \<and> isDigit a \<and> isDigit b"
  by (erule getnum_fixed.elims) (auto split: if_splits)

lemma skip_char_Some: "skip_char p s = Some r \<Longrightarrow> s = p # r"
  by (erule skip_char.elims) (auto split: if_splits)

lemma Parse_shape:
  assumes "Parse_2006_01_02 s = Some d"
  shows "\<exists>y1 y2 y3 y4 m1 m2 d1 d2. s = [y1, y2, y3, y4, CHR ''-'', m1, m2, CHR ''-'', d1, d2]
     \<and> isDigit y1 \<and> isDigit y2 \<and> isDigit y3 \<and> isDigit y4 \<and> isDigit m1 \<and> isDigit m2
     \<and> isDigit d1 \<and> isDigit d2"
  using assms unfolding Parse_2006_01_02_def
  by (auto split: option.splits prod.splits if_splits
      dest!: long_year_Some getnum_fixed_Some skip_char_Some)

lemma isDatetime_matches: "isDatetime s \<Longrightarrow> matches_YYYY_MM_DD s"
proof -
  assume "isDatetime s"
  then obtain d where "Parse_2006_01_02 s = Some d"
    by (auto simp: isDatetime_def split: option.splits)
  from Parse_shape [OF this] show ?thesis
    by (auto simp: matches_YYYY_MM_DD_def)
qed

text \<open>
  Claim C4. An update whose \<open>Date\<close> is present and does not match
  \<open>YYYY-MM-DD\<close> is refused by the validation of the payload: the method returns
  nil and the validator's own error, which names the field \<open>Date\<close> and the tag
  \<open>datetime\<close> and is not wrapped, and the validation is the only call it makes,
  so nothing reaches the transport, whatever the client and the id.
\<close>

theorem UpdateTransaction_malformed_date:
  assumes "UpdateTransaction.Date ut = Some d" and "\<not> matches_YYYY_MM_DD d"
  shows "\<exists>errs. Struct_UpdateTransaction (Some ut) = Some (ValidationErrors errs)
           \<and> (''Date'', ''datetime'') \<in> set errs
           \<and> UpdateTransaction c id' (Some ut)
               = \<lparr>result = None, err = Some (ValidationErrors errs),
                  calls = [Validate_Struct ''*lunchmoney.UpdateTransaction'']\<rparr>"
proof -
  from assms(2) have bad: "\<not> isDatetime d"
    using isDatetime_matches by blast
  define errs where "errs = omitnil_datetime ''Date'' (UpdateTransaction.Date ut)
       @ omitnil_oneof ''Status'' [''cleared'', ''uncleared''] (UpdateTransaction.Status ut)"
  have mem: "(''Date'', ''datetime'') \<in> set errs"
    using assms(1) bad by (simp add: errs_def omitnil_datetime_def)
  then have ne: "errs \<noteq> []" by auto
  have v: "Struct_UpdateTransaction (Some ut) = Some (ValidationErrors errs)"
    using ne by (simp add: Struct_UpdateTransaction_def field_errors_def errs_def)
  have "UpdateTransaction c id' (Some ut)
          = \<lparr>result = None, err = Some (ValidationErrors errs),
             calls = [Validate_Struct ''*lunchmoney.UpdateTransaction'']\<rparr>"
    by (simp add: UpdateTransaction_def v)
  with v mem show ?thesis by blast
qed

text \<open>
  The scenario of the specification: the date \<open>02/10/2021\<close>, sent through a client
  whose transport would answer.
\<close>

theorem UpdateTransaction_malformed_date_witness:
  "UpdateTransaction.Date (empty_UpdateTransaction\<lparr>UpdateTransaction.Date := Some ''02/10/2021''\<rparr>)
     = Some ''02/10/2021''
   \<and> \<not> matches_YYYY_MM_DD ''02/10/2021''
   \<and> UpdateTransaction (serving_Client (Document (JObject [(''updated'', JBool True)]))) 7
       (Some (empty_UpdateTransaction\<lparr>UpdateTransaction.Date := Some ''02/10/2021''\<rparr>))
     = \<lparr>result = None, err = Some (ValidationErrors [(''Date'', ''datetime'')]),
        calls = [Validate_Struct ''*lunchmoney.UpdateTransaction'']\<rparr>"
proof -
  let ?ut = "empty_UpdateTransaction\<lparr>UpdateTransaction.Date := Some ''02/10/2021''\<rparr>"
  have h1: "UpdateTransaction.Date ?ut = Some ''02/10/2021''" by simp
  have h2: "\<not> matches_YYYY_MM_DD ''02/10/2021''"
    by (simp add: matches_YYYY_MM_DD_def isDigit_def)
  have v: "Struct_UpdateTransaction (Some ?ut) = Some (ValidationErrors [(''Date'', ''datetime'')])"
    by (simp add: Struct_UpdateTransaction_def field_errors_def omitnil_datetime_def
        omitnil_oneof_def empty_UpdateTransaction_def isDatetime_def Parse_2006_01_02_def
        isDigit_def)
  from UpdateTransaction_malformed_date
    [OF h1 h2, of "serving_Client (Document (JObject [(''updated'', JBool True)]))" 7] v h1 h2
  show ?thesis by auto
qed

subsection \<open>The empty list\<close>

text \<open>
  Claim C7. When the transport answers the crypto request with the body
  \<open>{"crypto": []}\<close>, \<open>GetCrypto\<close> returns the list that is empty and not nil
  (\<open>Some []\<close>) and no error.
\<close>

theorem GetCrypto_empty_list:
  assumes "Get c ''/v1/crypto'' Map.empty = Inr (Document (JObject [(''crypto'', JArray [])]))"
  shows "result (GetCrypto lib c) = Some [] \<and> err (GetCrypto lib c) = None"
  using assms
  by (simp add: GetCrypto_def Decode_CryptoResponse_def Decode_def store_struct_def
      CryptoResponse_field_def store_slice_def into_def Struct_CryptoResponse_def field_errors_def)

theorem GetCrypto_empty_list_witness:
  "Get (serving_Client (Document (JObject [(''crypto'', JArray [])]))) ''/v1/crypto'' Map.empty
     = Inr (Document (JObject [(''crypto'', JArray [])]))
   \<and> result (GetCrypto json_stdlib (serving_Client (Document (JObject [(''crypto'', JArray [])]))))
       = Some []
   \<and> err (GetCrypto json_stdlib (serving_Client (Document (JObject [(''crypto'', JArray [])]))))
       = None"
proof -
  have h: "Get (serving_Client (Document (JObject [(''crypto'', JArray [])]))) ''/v1/crypto''
             Map.empty = Inr (Document (JObject [(''crypto'', JArray [])]))"
    by (simp add: serving_Client_def)
  from GetCrypto_empty_list [OF h, of json_stdlib] h show ?thesis by simp
qed

subsection \<open>Parsed amounts\<close>

text \<open>
  Claim C8. The parsed amount of a record whose balance is \<open>1.5\<close> and whose
  currency is \<open>BTC\<close> is a money value with the currency code \<open>BTC\<close>; that of
  a record whose balance is \<open>invalid\<close> and whose currency is \<open>ETH\<close> is the
  malformed-amount error. Both hold for every reference table of currencies and
  whatever the other fields of the record are.
\<close>

theorem ParsedAmount_scenarios:
  "(\<exists>m. ParsedAmount table (c\<lparr>Crypto.Balance := ''1.5'', Crypto.Currency := ''BTC''\<rparr>) = Inr m
        \<and> currency_code m = ''BTC'')
   \<and> ParsedAmount table (c\<lparr>Crypto.Balance := ''invalid'', Crypto.Currency := ''ETH''\<rparr>)
       = Inl ErrMalformedAmount"
  by (simp add: ParsedAmount_def ParseCurrency_def decimal_parts_def isDigit_def
      is_currency_code_def)

subsection \<open>Failures of the transport and of the decoder\<close>

lemma GetCrypto_transport:
  "r \<in> set (calls (GetCrypto lib c)) \<Longrightarrow> transport_answer c r = Some (Inl e)
     \<Longrightarrow> transport_failure ''get crypto'' e r (GetCrypto lib c)"
  by (auto simp: GetCrypto_def transport_failure_def Let_def split: sum.splits option.splits)

lemma GetTransactions_transport:
  "r \<in> set (calls (GetTransactions c filters)) \<Longrightarrow> transport_answer c r = Some (Inl e)
     \<Longrightarrow> transport_failure ''get transactions'' e r (GetTransactions c filters)"
  by (auto simp: GetTransactions_def transport_failure_def Let_def ToMap_fails
      split: sum.splits option.splits)

lemma GetTransaction_transport:
  "r \<in> set (calls (GetTransaction c i filters)) \<Longrightarrow> transport_answer c r = Some (Inl e)
     \<Longrightarrow> transport_failure (''get transaction '' @ itoa i) e r (GetTransaction c i filters)"
  by (auto simp: GetTransaction_def transport_failure_def Let_def ToMap_fails
      split: sum.splits option.splits)

lemma UpdateTransaction_transport:
  "r \<in> set (calls (UpdateTransaction c i ut)) \<Longrightarrow> transport_answer c r = Some (Inl e)
     \<Longrightarrow> transport_failure (''update transaction '' @ itoa i) e r (UpdateTransaction c i ut)"
  by (auto simp: UpdateTransaction_def transport_failure_def Let_def
      split: sum.splits option.splits)

lemma UpdateManualCrypto_transport:
  "r \<in> set (calls (UpdateManualCrypto lib c i crypto)) \<Longrightarrow> transport_answer c r = Some (Inl e)
     \<Longrightarrow> transport_failure (''put crypto '' @ itoa i) e r (UpdateManualCrypto lib c i crypto)"
  by (auto simp: UpdateManualCrypto_def transport_failure_def Let_def
      split: sum.splits option.splits)

text \<open>
  Claim C5. For each of the five methods: whenever one of the calls the method made is
  a request that the transport answered with an error (a failed connection, a response
  outside 2xx such as 401), the method returns nil and that error wrapped under the
  name of its operation, and the request is the only one it made, so nothing is
  retried. The wrapped error unwraps to the transport's, and its text starts with the
  name of the operation. (With filters that are not nil \<open>GetTransactions\<close> and
  \<open>GetTransaction\<close> never reach the transport, see C1.)
\<close>

theorem transport_error_wrapped:
  "(\<forall>r e. r \<in> set (calls (GetCrypto lib c)) \<and> transport_answer c r = Some (Inl e)
       \<longrightarrow> transport_failure ''get crypto'' e r (GetCrypto lib c))
   \<and> (\<forall>r e. r \<in> set (calls (GetTransactions c filters)) \<and> transport_answer c r = Some (Inl e)
       \<longrightarrow> transport_failure ''get transactions'' e r (GetTransactions c filters))
   \<and> (\<forall>r e. r \<in> set (calls (GetTransaction c i filters)) \<and> transport_answer c r = Some (Inl e)
       \<longrightarrow> transport_failure (''get transaction '' @ itoa i) e r (GetTransaction c i filters))
   \<and> (\<forall>r e. r \<in> set (calls (UpdateTransaction c i ut)) \<and> transport_answer c r = Some (Inl e)
       \<longrightarrow> transport_failure (''update transaction '' @ itoa i) e r (UpdateTransaction c i ut))
   \<and> (\<forall>r e. r \<in> set (calls (UpdateManualCrypto lib c i crypto))
         \<and> transport_answer c r = Some (Inl e)
       \<longrightarrow> transport_failure (''put crypto '' @ itoa i) e r (UpdateManualCrypto lib c i crypto))
   \<and> (\<forall>op e. Unwrap (Errorf op e) = Some e \<and> prefix op (Error_text leaf (Errorf op e)))"
proof (intro conjI allI impI)
  fix op e
  show "Unwrap (Errorf op e) = Some e" by simp
  show "prefix op (Error_text leaf (Errorf op e))" by simp
qed (erule conjE, erule (1) GetCrypto_transport GetTransactions_transport
       GetTransaction_transport UpdateTransaction_transport UpdateManualCrypto_transport)+


lemma itoa_152: "itoa 152 = ''152''"
  by (simp add: itoa_def digit_char_def)

text \<open>The five methods on a client whose transport answers 401 to every request.\<close>

theorem transport_error_wrapped_witness:
  "transport_failure ''get crypto'' unauthorized (Http_Get ''/v1/crypto'' Map.empty)
     (GetCrypto json_stdlib (failing_Client unauthorized))
   \<and> transport_failure ''get transactions'' unauthorized (Http_Get ''/v1/transactions'' Map.empty)
     (GetTransactions (failing_Client unauthorized) None)
   \<and> transport_failure ''get transaction 152'' unauthorized
     (Http_Get ''/v1/transactions/152'' Map.empty)
     (GetTransaction (failing_Client unauthorized) 152 None)
   \<and> transport_failure ''update transaction 152'' unauthorized
     (Http_Put ''/v1/transactions/152''
        (Body_UpdateRequest \<lparr>Transaction = Some empty_UpdateTransaction\<rparr>))
     (UpdateTransaction (failing_Client unauthorized) 152 (Some empty_UpdateTransaction))
   \<and> transport_failure ''put crypto 152'' unauthorized
     (Http_Put ''/v1/crypto/manual/152'' (Body_UpdateCrypto (Some empty_UpdateCrypto)))
     (UpdateManualCrypto json_stdlib (failing_Client unauthorized) 152 (Some empty_UpdateCrypto))
   \<and> prefix ''get crypto''
       (Error_text (\<lambda>e. ''401 Unauthorized'') (Errorf ''get crypto'' unauthorized))"
proof -
  let ?c = "failing_Client unauthorized"
  note w = transport_error_wrapped [of json_stdlib ?c None 152 "Some empty_UpdateTransaction"
      "Some empty_UpdateCrypto" "\<lambda>e. ''401 Unauthorized''"]
  have m1: "Http_Get ''/v1/crypto'' Map.empty \<in> set (calls (GetCrypto json_stdlib ?c))"
    by (simp add: GetCrypto_def failing_Client_def)
  have m2: "Http_Get ''/v1/transactions'' Map.empty \<in> set (calls (GetTransactions ?c None))"
    by (simp add: GetTransactions_def failing_Client_def)
  have m3: "Http_Get ''/v1/transactions/152'' Map.empty
              \<in> set (calls (GetTransaction ?c 152 None))"
    by (simp add: GetTransaction_def failing_Client_def itoa_152)
  have m4: "Http_Put ''/v1/transactions/152''
              (Body_UpdateRequest \<lparr>Transaction = Some empty_UpdateTransaction\<rparr>)
              \<in> set (calls (UpdateTransaction ?c 152 (Some empty_UpdateTransaction)))"
    by (simp add: UpdateTransaction_def failing_Client_def itoa_152 Struct_UpdateTransaction_def
        empty_UpdateTransaction_def omitnil_datetime_def omitnil_oneof_def field_errors_def)
  have m5: "Http_Put ''/v1/crypto/manual/152'' (Body_UpdateCrypto (Some empty_UpdateCrypto))
              \<in> set (calls (UpdateManualCrypto json_stdlib ?c 152 (Some empty_UpdateCrypto)))"
    by (simp add: UpdateManualCrypto_def failing_Client_def itoa_152 Struct_UpdateCrypto_def
        field_errors_def)
  have a: "\<And>p opts. transport_answer ?c (Http_Get p opts) = Some (Inl unauthorized)"
    "\<And>p b. transport_answer ?c (Http_Put p b) = Some (Inl unauthorized)"
    by (simp_all add: failing_Client_def)
  from w m1 m2 m3 m4 m5 a show ?thesis
    by (simp add: itoa_152 del: transport_answer.simps)
qed


lemma GetCrypto_decode:
  "r \<in> set (calls (GetCrypto lib c)) \<Longrightarrow> transport_answer c r = Some (Inr b)
     \<Longrightarrow> Decode_CryptoResponse lib b = Inl e \<Longrightarrow> decode_failure e (GetCrypto lib c)"
  by (auto simp: GetCrypto_def decode_failure_def Let_def split: sum.splits option.splits)

lemma GetTransactions_decode:
  "r \<in> set (calls (GetTransactions c filters)) \<Longrightarrow> transport_answer c r = Some (Inr b)
     \<Longrightarrow> Decode_TransactionsResponse b = Inl e \<Longrightarrow> decode_failure e (GetTransactions c filters)"
  by (auto simp: GetTransactions_def decode_failure_def Let_def ToMap_fails
      split: sum.splits option.splits)

lemma GetTransaction_decode:
  "r \<in> set (calls (GetTransaction c i filters)) \<Longrightarrow> transport_answer c r = Some (Inr b)
     \<Longrightarrow> Decode_Transaction b = Inl e \<Longrightarrow> decode_failure e (GetTransaction c i filters)"
  by (auto simp: GetTransaction_def decode_failure_def Let_def ToMap_fails
      split: sum.splits option.splits)

lemma UpdateTransaction_decode:
  "r \<in> set (calls (UpdateTransaction c i ut)) \<Longrightarrow> transport_answer c r = Some (Inr b)
     \<Longrightarrow> Decode_UpdateTransactionResp b = Inl e \<Longrightarrow> decode_failure e (UpdateTransaction c i ut)"
  by (auto simp: UpdateTransaction_def decode_failure_def Let_def
      split: sum.splits option.splits)

lemma UpdateManualCrypto_decode:
  "r \<in> set (calls (UpdateManualCrypto lib c i crypto)) \<Longrightarrow> transport_answer c r = Some (Inr b)
     \<Longrightarrow> Decode_Crypto lib b = Inl e \<Longrightarrow> decode_failure e (UpdateManualCrypto lib c i crypto)"
  by (auto simp: UpdateManualCrypto_def decode_failure_def Let_def
      split: sum.splits option.splits)

text \<open>
  Claim C6. For each of the five methods: whenever the transport answered the method's
  request with a body that does not decode into the method's response type (a text that
  is not JSON, or a value the type cannot receive), the method returns nil and the
  decoder's error wrapped under \<open>decode response\<close>.
\<close>

theorem decode_error_wrapped:
  "(\<forall>r b e. r \<in> set (calls (GetCrypto lib c)) \<and> transport_answer c r = Some (Inr b)
         \<and> Decode_CryptoResponse lib b = Inl e
       \<longrightarrow> decode_failure e (GetCrypto lib c))
   \<and> (\<forall>r b e. r \<in> set (calls (GetTransactions c filters)) \<and> transport_answer c r = Some (Inr b)
         \<and> Decode_TransactionsResponse b = Inl e
       \<longrightarrow> decode_failure e (GetTransactions c filters))
   \<and> (\<forall>r b e. r \<in> set (calls (GetTransaction c i filters)) \<and> transport_answer c r = Some (Inr b)
         \<and> Decode_Transaction b = Inl e
       \<longrightarrow> decode_failure e (GetTransaction c i filters))
   \<and> (\<forall>r b e. r \<in> set (calls (UpdateTransaction c i ut)) \<and> transport_answer c r = Some (Inr b)
         \<and> Decode_UpdateTransactionResp b = Inl e
       \<longrightarrow> decode_failure e (UpdateTransaction c i ut))
   \<and> (\<forall>r b e. r \<in> set (calls (UpdateManualCrypto lib c i crypto))
         \<and> transport_answer c r = Some (Inr b) \<and> Decode_Crypto lib b = Inl e
       \<longrightarrow> decode_failure e (UpdateManualCrypto lib c i crypto))
   \<and> (\<forall>e. Unwrap (Errorf ''decode response'' e) = Some e
         \<and> prefix ''decode response'' (Error_text leaf (Errorf ''decode response'' e)))"
proof (intro conjI allI impI)
  fix e
  show "Unwrap (Errorf ''decode response'' e) = Some e" by simp
  show "prefix ''decode response'' (Error_text leaf (Errorf ''decode response'' e))" by simp
qed (elim conjE, erule (2) GetCrypto_decode GetTransactions_decode
       GetTransaction_decode UpdateTransaction_decode UpdateManualCrypto_decode)+

text \<open>The five methods on a client whose transport answers with a truncated text.\<close>

theorem decode_error_wrapped_witness:
  "decode_failure SyntaxError (GetCrypto json_stdlib (serving_Client Malformed))
   \<and> decode_failure SyntaxError (GetTransactions (serving_Client Malformed) None)
   \<and> decode_failure SyntaxError (GetTransaction (serving_Client Malformed) 152 None)
   \<and> decode_failure SyntaxError
       (UpdateTransaction (serving_Client Malformed) 152 (Some empty_UpdateTransaction))
   \<and> decode_failure SyntaxError
       (UpdateManualCrypto json_stdlib (serving_Client Malformed) 152 (Some empty_UpdateCrypto))"
proof -
  let ?c = "serving_Client Malformed"
  note w = decode_error_wrapped [of json_stdlib ?c None 152 "Some empty_UpdateTransaction"
      "Some empty_UpdateCrypto" "\<lambda>e. []"]
  have m1: "Http_Get ''/v1/crypto'' Map.empty \<in> set (calls (GetCrypto json_stdlib ?c))"
    by (simp add: GetCrypto_def serving_Client_def Decode_CryptoResponse_def Decode_def)
  have m2: "Http_Get ''/v1/transactions'' Map.empty \<in> set (calls (GetTransactions ?c None))"
    by (simp add: GetTransactions_def serving_Client_def Decode_TransactionsResponse_def Decode_def)
  have m3: "Http_Get ''/v1/transactions/152'' Map.empty
              \<in> set (calls (GetTransaction ?c 152 None))"
    by (simp add: GetTransaction_def serving_Client_def itoa_152 Decode_Transaction_def Decode_def)
  have m4: "Http_Put ''/v1/transactions/152''
              (Body_UpdateRequest \<lparr>Transaction = Some empty_UpdateTransaction\<rparr>)
              \<in> set (calls (UpdateTransaction ?c 152 (Some empty_UpdateTransaction)))"
    by (simp add: UpdateTransaction_def serving_Client_def itoa_152 Struct_UpdateTransaction_def
        empty_UpdateTransaction_def omitnil_datetime_def omitnil_oneof_def field_errors_def
        Decode_UpdateTransactionResp_def Decode_def)
  have m5: "Http_Put ''/v1/crypto/manual/152'' (Body_UpdateCrypto (Some empty_UpdateCrypto))
              \<in> set (calls (UpdateManualCrypto json_stdlib ?c 152 (Some empty_UpdateCrypto)))"
    by (simp add: UpdateManualCrypto_def serving_Client_def itoa_152 Struct_UpdateCrypto_def
        field_errors_def Decode_Crypto_def Decode_def)
  have a: "\<And>p opts. transport_answer ?c (Http_Get p opts) = Some (Inr Malformed)"
    "\<And>p b. transport_answer ?c (Http_Put p b) = Some (Inr Malformed)"
    by (simp_all add: serving_Client_def)
  have d: "Decode_CryptoResponse json_stdlib Malformed = Inl SyntaxError"
    "Decode_TransactionsResponse Malformed = Inl SyntaxError"
    "Decode_Transaction Malformed = Inl SyntaxError"
    "Decode_UpdateTransactionResp Malformed = Inl SyntaxError"
    "Decode_Crypto json_stdlib Malformed = Inl SyntaxError"
    by (simp_all add: Decode_CryptoResponse_def Decode_TransactionsResponse_def
        Decode_Transaction_def Decode_UpdateTransactionResp_def Decode_Crypto_def Decode_def)
  from w m1 m2 m3 m4 m5 a d show ?thesis
    by blast
qed

subsection \<open>What the update methods validate\<close>

lemma UpdateTransaction_validations:
  "take 1 (calls (UpdateTransaction c i ut)) = [Validate_Struct ''*lunchmoney.UpdateTransaction'']
   \<and> filter is_validation (calls (UpdateTransaction c i ut))
       = [Validate_Struct ''*lunchmoney.UpdateTransaction'']"
  by (auto simp: UpdateTransaction_def Let_def split: sum.splits option.splits)

lemma UpdateManualCrypto_validations:
  "take 1 (calls (UpdateManualCrypto lib c i crypto)) = [Validate_Struct ''*lunchmoney.UpdateCrypto'']
   \<and> filter is_validation (calls (UpdateManualCrypto lib c i crypto))
       = [Validate_Struct ''*lunchmoney.UpdateCrypto'']"
  by (auto simp: UpdateManualCrypto_def Let_def split: sum.splits option.splits)

lemma UpdateTransaction_returns_decoded:
  "r \<in> set (calls (UpdateTransaction c i ut)) \<Longrightarrow> transport_answer c r = Some (Inr b)
     \<Longrightarrow> Decode_UpdateTransactionResp b = Inr resp
     \<Longrightarrow> result (UpdateTransaction c i ut) = Some resp \<and> err (UpdateTransaction c i ut) = None"
  by (auto simp: UpdateTransaction_def Let_def split: sum.splits option.splits)

lemma UpdateManualCrypto_returns_decoded:
  "r \<in> set (calls (UpdateManualCrypto lib c i crypto)) \<Longrightarrow> transport_answer c r = Some (Inr b)
     \<Longrightarrow> Decode_Crypto lib b = Inr resp
     \<Longrightarrow> result (UpdateManualCrypto lib c i crypto) = Some resp
         \<and> err (UpdateManualCrypto lib c i crypto) = None"
  by (auto simp: UpdateManualCrypto_def Let_def split: sum.splits option.splits)

text \<open>
  Claim C3, as amended. Each update method validates once: the validation of the
  payload is its first call, before any request, and it is the only validation among
  its calls. When the transport answered the request with a body that decodes, the
  decoded response is returned as it is, with no error.
\<close>

theorem update_validates_payload_only:
  "take 1 (calls (UpdateTransaction c i ut)) = [Validate_Struct ''*lunchmoney.UpdateTransaction'']
   \<and> filter is_validation (calls (UpdateTransaction c i ut))
       = [Validate_Struct ''*lunchmoney.UpdateTransaction'']
   \<and> (\<forall>r b resp. r \<in> set (calls (UpdateTransaction c i ut))
         \<and> transport_answer c r = Some (Inr b) \<and> Decode_UpdateTransactionResp b = Inr resp
       \<longrightarrow> result (UpdateTransaction c i ut) = Some resp \<and> err (UpdateTransaction c i ut) = None)
   \<and> take 1 (calls (UpdateManualCrypto lib c i crypto))
       = [Validate_Struct ''*lunchmoney.UpdateCrypto'']
   \<and> filter is_validation (calls (UpdateManualCrypto lib c i crypto))
       = [Validate_Struct ''*lunchmoney.UpdateCrypto'']
   \<and> (\<forall>r b resp. r \<in> set (calls (UpdateManualCrypto lib c i crypto))
         \<and> transport_answer c r = Some (Inr b) \<and> Decode_Crypto lib b = Inr resp
       \<longrightarrow> result (UpdateManualCrypto lib c i crypto) = Some resp
           \<and> err (UpdateManualCrypto lib c i crypto) = None)"
  using UpdateTransaction_validations [of c i ut] UpdateManualCrypto_validations [of lib c i crypto]
    UpdateTransaction_returns_decoded [of _ c i ut]
    UpdateManualCrypto_returns_decoded [of _ lib c i crypto]
  by blast


text \<open>Two updates that the server answers with a well-formed response.\<close>

theorem update_validates_payload_only_witness:
  "result (UpdateTransaction
      (serving_Client (Document (JObject [(''updated'', JBool True), (''split'', JArray [JNumber ''3''])])))
      152 (Some empty_UpdateTransaction)) = Some \<lparr>Updated = True, Split = Some [3]\<rparr>
   \<and> err (UpdateTransaction
      (serving_Client (Document (JObject [(''updated'', JBool True), (''split'', JArray [JNumber ''3''])])))
      152 (Some empty_UpdateTransaction)) = None
   \<and> result (UpdateManualCrypto json_stdlib
      (serving_Client (Document (JObject [(''id'', JNumber ''152''), (''source'', JString ''manual'')])))
      152 (Some empty_UpdateCrypto))
     = Some ((zero_Crypto json_stdlib)\<lparr>Crypto.ID := Some 152, Crypto.Source := ''manual''\<rparr>)
   \<and> err (UpdateManualCrypto json_stdlib
      (serving_Client (Document (JObject [(''id'', JNumber ''152''), (''source'', JString ''manual'')])))
      152 (Some empty_UpdateCrypto)) = None"
proof -
  let ?b1 = "Document (JObject [(''updated'', JBool True), (''split'', JArray [JNumber ''3''])])"
  let ?b2 = "Document (JObject [(''id'', JNumber ''152''), (''source'', JString ''manual'')])"
  note w = update_validates_payload_only
  have m1: "Http_Put ''/v1/transactions/152''
              (Body_UpdateRequest \<lparr>Transaction = Some empty_UpdateTransaction\<rparr>)
              \<in> set (calls (UpdateTransaction (serving_Client ?b1) 152 (Some empty_UpdateTransaction)))"
    by (simp add: UpdateTransaction_def itoa_152 Struct_UpdateTransaction_def
        empty_UpdateTransaction_def omitnil_datetime_def omitnil_oneof_def field_errors_def
        Let_def split: sum.splits)
  have a1: "transport_answer (serving_Client ?b1) (Http_Put ''/v1/transactions/152''
              (Body_UpdateRequest \<lparr>Transaction = Some empty_UpdateTransaction\<rparr>)) = Some (Inr ?b1)"
    by (simp add: serving_Client_def)
  have d1: "Decode_UpdateTransactionResp ?b1 = Inr \<lparr>Updated = True, Split = Some [3]\<rparr>"
    by (simp add: Decode_UpdateTransactionResp_def Decode_def store_struct_def
        UpdateTransactionResp_field_def upper_def into_def store_bool_def store_slice_def
        store_int_def ParseInt64_def digits_val_def digit_val_def isDigit_def)
  have m2: "Http_Put ''/v1/crypto/manual/152'' (Body_UpdateCrypto (Some empty_UpdateCrypto))
              \<in> set (calls (UpdateManualCrypto json_stdlib (serving_Client ?b2) 152
                    (Some empty_UpdateCrypto)))"
    by (simp add: UpdateManualCrypto_def itoa_152 Struct_UpdateCrypto_def field_errors_def
        Let_def split: sum.splits)
  have a2: "transport_answer (serving_Client ?b2) (Http_Put ''/v1/crypto/manual/152''
              (Body_UpdateCrypto (Some empty_UpdateCrypto))) = Some (Inr ?b2)"
    by (simp add: serving_Client_def)
  have d2: "Decode_Crypto json_stdlib ?b2
              = Inr ((zero_Crypto json_stdlib)\<lparr>Crypto.ID := Some 152, Crypto.Source := ''manual''\<rparr>)"
    by (simp add: Decode_Crypto_def Decode_def store_Crypto_def store_struct_def
        Crypto_field_def upper_def into_def store_pointer_def store_string_def
        store_int_def ParseInt64_def digits_val_def digit_val_def isDigit_def)
  from w [of "serving_Client ?b1" 152 "Some empty_UpdateTransaction" json_stdlib
      "Some empty_UpdateCrypto"] m1 a1 d1
  have r1: "result (UpdateTransaction (serving_Client ?b1) 152 (Some empty_UpdateTransaction))
              = Some \<lparr>Updated = True, Split = Some [3]\<rparr>
            \<and> err (UpdateTransaction (serving_Client ?b1) 152 (Some empty_UpdateTransaction)) = None"
    by blast
  from w [of "serving_Client ?b2" 152 "Some empty_UpdateTransaction" json_stdlib
      "Some empty_UpdateCrypto"] m2 a2 d2
  have r2: "result (UpdateManualCrypto json_stdlib (serving_Client ?b2) 152 (Some empty_UpdateCrypto))
              = Some ((zero_Crypto json_stdlib)\<lparr>Crypto.ID := Some 152, Crypto.Source := ''manual''\<rparr>)
            \<and> err (UpdateManualCrypto json_stdlib (serving_Client ?b2) 152
                  (Some empty_UpdateCrypto)) = None"
    by blast
  from r1 r2 show ?thesis by blast
qed

text \<open>
  Claim C3 as stated fails: validation is not applied to the decoded response of an
  update. The server answers an update of a manual crypto asset with an object whose
  source is neither \<open>synced\<close> nor \<open>manual\<close> and that has no identifier;
  the method validates once (the payload) and returns the record with no error.
\<close>

theorem update_response_not_validated:
  "filter is_validation
     (calls (UpdateManualCrypto json_stdlib
        (serving_Client (Document (JObject [(''source'', JString ''bogus'')]))) 152
        (Some empty_UpdateCrypto)))
     = [Validate_Struct ''*lunchmoney.UpdateCrypto'']
   \<and> err (UpdateManualCrypto json_stdlib
        (serving_Client (Document (JObject [(''source'', JString ''bogus'')]))) 152
        (Some empty_UpdateCrypto)) = None
   \<and> result (UpdateManualCrypto json_stdlib
        (serving_Client (Document (JObject [(''source'', JString ''bogus'')]))) 152
        (Some empty_UpdateCrypto)) = Some ((zero_Crypto json_stdlib)\<lparr>Crypto.Source := ''bogus''\<rparr>)"
  by (simp add: UpdateManualCrypto_def Struct_UpdateCrypto_def field_errors_def serving_Client_def
      Decode_Crypto_def Decode_def store_Crypto_def store_struct_def Crypto_field_def upper_def
      into_def store_string_def)

text \<open>
  Claim C10 as stated fails: the update with every field absent passes the validation,
  the request is sent and the server's answer is decoded.
\<close>

theorem empty_update_is_sent:
  "err (UpdateTransaction (serving_Client (Document (JObject [(''updated'', JBool True)]))) 152
         (Some empty_UpdateTransaction)) = None
   \<and> calls (UpdateTransaction (serving_Client (Document (JObject [(''updated'', JBool True)]))) 152
         (Some empty_UpdateTransaction))
       = [Validate_Struct ''*lunchmoney.UpdateTransaction'',
          Http_Put ''/v1/transactions/152''
            (Body_UpdateRequest \<lparr>Transaction = Some empty_UpdateTransaction\<rparr>),
          Json_Decode ''*lunchmoney.UpdateTransactionResp'']"
  by (simp add: UpdateTransaction_def itoa_152 Struct_UpdateTransaction_def
      empty_UpdateTransaction_def omitnil_datetime_def omitnil_oneof_def field_errors_def
      serving_Client_def Decode_UpdateTransactionResp_def Decode_def store_struct_def
      UpdateTransactionResp_field_def upper_def into_def store_bool_def)

text \<open>
  Claim C10, as amended. No field of an update payload is mandatory. The payload with
  every field absent passes the validation and the method goes on to send the request,
  for every client and id; every \<open>UpdateCrypto\<close> passes; an
  \<open>UpdateTransaction\<close> passes exactly when its \<open>Date\<close>, if present, is a
  date and its \<open>Status\<close>, if present, is \<open>cleared\<close> or \<open>uncleared\<close>.
\<close>

theorem no_update_field_is_mandatory:
  "Struct_UpdateTransaction (Some empty_UpdateTransaction) = None
   \<and> take 2 (calls (UpdateTransaction c i (Some empty_UpdateTransaction)))
       = [Validate_Struct ''*lunchmoney.UpdateTransaction'',
          Http_Put (''/v1/transactions/'' @ itoa i)
            (Body_UpdateRequest \<lparr>Transaction = Some empty_UpdateTransaction\<rparr>)]
   \<and> Struct_UpdateCrypto (Some u) = None
   \<and> take 2 (calls (UpdateManualCrypto lib c i (Some u)))
       = [Validate_Struct ''*lunchmoney.UpdateCrypto'',
          Http_Put (''/v1/crypto/manual/'' @ itoa i) (Body_UpdateCrypto (Some u))]
   \<and> (Struct_UpdateTransaction (Some ut) = None)
       = ((case UpdateTransaction.Date ut of None \<Rightarrow> True | Some d \<Rightarrow> isDatetime d)
          \<and> (case UpdateTransaction.Status ut of None \<Rightarrow> True
              | Some s \<Rightarrow> s = ''cleared'' \<or> s = ''uncleared''))"
proof -
  have v1: "Struct_UpdateTransaction (Some empty_UpdateTransaction) = None"
    by (simp add: Struct_UpdateTransaction_def empty_UpdateTransaction_def omitnil_datetime_def
        omitnil_oneof_def field_errors_def)
  have v2: "Struct_UpdateCrypto (Some u) = None"
    by (simp add: Struct_UpdateCrypto_def field_errors_def)
  have c1: "take 2 (calls (UpdateTransaction c i (Some empty_UpdateTransaction)))
       = [Validate_Struct ''*lunchmoney.UpdateTransaction'',
          Http_Put (''/v1/transactions/'' @ itoa i)
            (Body_UpdateRequest \<lparr>Transaction = Some empty_UpdateTransaction\<rparr>)]"
    by (simp add: UpdateTransaction_def v1 Let_def split: sum.splits)
  have c2: "take 2 (calls (UpdateManualCrypto lib c i (Some u)))
       = [Validate_Struct ''*lunchmoney.UpdateCrypto'',
          Http_Put (''/v1/crypto/manual/'' @ itoa i) (Body_UpdateCrypto (Some u))]"
    by (simp add: UpdateManualCrypto_def v2 Let_def split: sum.splits)
  have ch: "(Struct_UpdateTransaction (Some ut) = None)
       = ((case UpdateTransaction.Date ut of None \<Rightarrow> True | Some d \<Rightarrow> isDatetime d)
          \<and> (case UpdateTransaction.Status ut of None \<Rightarrow> True
              | Some s \<Rightarrow> s = ''cleared'' \<or> s = ''uncleared''))"
    by (auto simp: Struct_UpdateTransaction_def omitnil_datetime_def omitnil_oneof_def
        field_errors_def isOneOf_def split: option.splits)
  from v1 v2 c1 c2 ch show ?thesis by blast
qed

subsection \<open>The identifiers of a returned record\<close>

lemma saveError_Some: "saveError x (Some e) = Some e"
  by (simp add: saveError_def)

lemma saveError_not_None: "saveError x sv \<noteq> None"
  by (simp add: saveError_def split: option.splits)

lemma into_Inr: "into f r = Inr (y, sv) \<Longrightarrow> \<exists>x. r = Inr (x, sv) \<and> y = f x"
  by (auto simp: into_def split: sum.splits prod.splits)

lemma store_string_keeps: "store_string v x (Some e) = Inr (y, sv) \<Longrightarrow> sv = Some e"
  by (auto simp: store_string_def mismatch_def saveError_def split: json.splits)

lemma store_int_keeps: "store_int t v x (Some e) = Inr (y, sv) \<Longrightarrow> sv = Some e"
  by (auto simp: store_int_def mismatch_def saveError_def split: json.splits option.splits)

lemma store_float64_keeps: "store_float64 lib v x (Some e) = Inr (y, sv) \<Longrightarrow> sv = Some e"
  by (auto simp: store_float64_def mismatch_def saveError_def split: json.splits option.splits)

lemma store_time_keeps: "store_time lib v x (Some e) = Inr (y, sv) \<Longrightarrow> sv = Some e"
  by (auto simp: store_time_def split: sum.splits)

lemma store_pointer_keeps:
  assumes "\<And>v x y sv. st v x (Some e) = Inr (y, sv) \<Longrightarrow> sv = Some e"
  shows "store_pointer st z v p (Some e) = Inr (y, sv) \<Longrightarrow> sv = Some e"
  using assms
  by (auto simp: store_pointer_def split: json.splits dest!: into_Inr)

lemma store_pointer_int_keeps:
  "store_pointer (store_int t) z v p (Some e) = Inr (y, sv) \<Longrightarrow> sv = Some e"
  by (erule store_pointer_keeps [rotated]) (erule store_int_keeps)

lemma store_pointer_string_keeps:
  "store_pointer store_string z v p (Some e) = Inr (y, sv) \<Longrightarrow> sv = Some e"
  by (erule store_pointer_keeps [rotated]) (erule store_string_keeps)

lemma store_pointer_float64_keeps:
  "store_pointer (store_float64 lib) z v p (Some e) = Inr (y, sv) \<Longrightarrow> sv = Some e"
  by (erule store_pointer_keeps [rotated]) (erule store_float64_keeps)

lemma Crypto_field_keeps: "Crypto_field lib k v c (Some e) = Inr (c', sv) \<Longrightarrow> sv = Some e"
  unfolding Crypto_field_def
  by (auto simp del: foldName.simps split: if_splits dest!: into_Inr
      dest: store_string_keeps store_time_keeps store_pointer_int_keeps
        store_pointer_string_keeps store_pointer_float64_keeps)

lemma store_members_keeps:
  assumes "\<And>k v s s' sv. field k v s (Some e) = Inr (s', sv) \<Longrightarrow> sv = Some e"
  shows "store_members field ms s (Some e) = Inr (s', sv) \<Longrightarrow> sv = Some e"
proof (induction ms arbitrary: s)
  case Nil
  then show ?case by simp
next
  case (Cons m ms)
  obtain k v where m: "m = (k, v)" by (cases m)
  from Cons.prems obtain s1 sv1 where
    step: "field (foldName k) v s (Some e) = Inr (s1, sv1)"
    and rest: "store_members field ms s1 sv1 = Inr (s', sv)"
    by (auto simp: m split: sum.splits prod.splits)
  from assms [OF step] have "sv1 = Some e" .
  with rest Cons.IH show ?case by simp
qed

lemma store_Crypto_keeps: "store_Crypto lib v c (Some e) = Inr (c', sv) \<Longrightarrow> sv = Some e"
  unfolding store_Crypto_def store_struct_def
  by (cases v)
     (auto simp: mismatch_def saveError_def
       elim: store_members_keeps [rotated] dest: Crypto_field_keeps)

lemma store_pointer_Crypto_keeps:
  "store_pointer (store_Crypto lib) z v p (Some e) = Inr (y, sv) \<Longrightarrow> sv = Some e"
  by (erule store_pointer_keeps [rotated]) (erule store_Crypto_keeps)

lemma store_elements_keeps:
  assumes "\<And>v x y sv. st v x (Some e) = Inr (y, sv) \<Longrightarrow> sv = Some e"
  shows "store_elements st z vs (Some e) = Inr (xs, sv) \<Longrightarrow> sv = Some e"
proof (induction vs arbitrary: xs)
  case Nil
  then show ?case by simp
next
  case (Cons v vs)
  from Cons.prems obtain x sv1 ys where
    step: "st v z (Some e) = Inr (x, sv1)"
    and rest: "store_elements st z vs sv1 = Inr (ys, sv)"
    by (auto split: sum.splits prod.splits dest!: into_Inr)
  from assms [OF step] have "sv1 = Some e" .
  with rest Cons.IH show ?case by simp
qed

lemma store_pointer_ids:
  "store_pointer (store_int t) 0 v p None = Inr (q, None)
     \<Longrightarrow> q = (case v of JNumber lit \<Rightarrow> ParseInt64 lit | _ \<Rightarrow> None)"
  by (auto simp: store_pointer_def store_int_def mismatch_def into_def saveError_def
      split: json.splits option.splits)

lemma folded_names: "foldName ''id'' \<noteq> foldName ''zabo_account_id''"
  by (simp add: upper_def)

lemma Crypto_field_ids:
  assumes "Crypto_field lib k v c None = Inr (c', None)"
  shows "Crypto.ID c' = (if k = foldName ''id''
            then (case v of JNumber lit \<Rightarrow> ParseInt64 lit | _ \<Rightarrow> None) else Crypto.ID c)
       \<and> Crypto.ZaboAccountID c' = (if k = foldName ''zabo_account_id''
            then (case v of JNumber lit \<Rightarrow> ParseInt64 lit | _ \<Rightarrow> None)
            else Crypto.ZaboAccountID c)"
proof (cases "k = foldName ''id''")
  case True
  with assms show ?thesis
    by (auto simp: Crypto_field_def folded_names simp del: foldName.simps
        dest!: into_Inr dest: store_pointer_ids)
next
  case nid: False
  show ?thesis
  proof (cases "k = foldName ''zabo_account_id''")
    case True
    with assms nid show ?thesis
      by (auto simp: Crypto_field_def simp del: foldName.simps
          dest!: into_Inr dest: store_pointer_ids)
  next
    case False
    with assms nid show ?thesis
      by (auto simp: Crypto_field_def simp del: foldName.simps split: if_splits dest!: into_Inr)
  qed
qed

lemma store_members_ids:
  "store_members (Crypto_field lib) ms c None = Inr (c', None)
     \<Longrightarrow> Crypto.ID c' = sent_identifier ''id'' ms (Crypto.ID c)
       \<and> Crypto.ZaboAccountID c' = sent_identifier ''zabo_account_id'' ms (Crypto.ZaboAccountID c)"
proof (induction ms arbitrary: c)
  case Nil
  then show ?case by simp
next
  case (Cons m ms)
  obtain k v where m: "m = (k, v)" by (cases m)
  from Cons.prems obtain c1 sv1 where
    step: "Crypto_field lib (foldName k) v c None = Inr (c1, sv1)"
    and rest: "store_members (Crypto_field lib) ms c1 sv1 = Inr (c', None)"
    by (auto simp: m split: sum.splits prod.splits)
  have "sv1 = None"
  proof (cases sv1)
    case (Some e)
    with rest store_members_keeps [of "Crypto_field lib" e ms c1 c' None]
    show ?thesis by (auto dest: Crypto_field_keeps)
  qed simp
  with step rest Cons.IH [of c1] Crypto_field_ids [of lib "foldName k" v c c1]
  show ?case by (simp add: m del: foldName.simps)
qed

lemma zero_Crypto_ids:
  "Crypto.ID (zero_Crypto lib) = None \<and> Crypto.ZaboAccountID (zero_Crypto lib) = None"
  by (simp add: zero_Crypto_def)

lemma store_Crypto_object:
  "store_Crypto lib (JObject ms) (zero_Crypto lib) None = Inr (rec, None)
     \<Longrightarrow> mirrors (JObject ms) (Some rec)"
  using store_members_ids [of lib ms "zero_Crypto lib" rec]
  by (simp add: store_Crypto_def store_struct_def zero_Crypto_ids)

lemma store_pointer_Crypto_mirrors:
  assumes "store_pointer (store_Crypto lib) (zero_Crypto lib) v None None = Inr (x, None)"
  shows "mirrors v x"
proof (cases v)
  case JNull
  with assms show ?thesis by (simp add: store_pointer_def)
next
  case (JObject ms)
  with assms show ?thesis
    by (auto simp: store_pointer_def dest!: into_Inr dest: store_Crypto_object)
qed (use assms in \<open>auto simp: store_pointer_def store_Crypto_def store_struct_def mismatch_def
       saveError_def dest!: into_Inr\<close>)

lemma store_elements_mirror:
  "store_elements (store_pointer (store_Crypto lib) (zero_Crypto lib)) None vs None = Inr (recs, None)
     \<Longrightarrow> list_all2 mirrors vs recs"
proof (induction vs arbitrary: recs)
  case Nil
  then show ?case by simp
next
  case (Cons v vs)
  let ?st = "store_pointer (store_Crypto lib) (zero_Crypto lib)"
  from Cons.prems obtain x sv1 ys where
    step: "?st v None None = Inr (x, sv1)"
    and rest: "store_elements ?st None vs sv1 = Inr (ys, None)"
    and recs: "recs = x # ys"
    by (auto split: sum.splits prod.splits dest!: into_Inr)
  have "sv1 = None"
  proof (cases sv1)
    case (Some e)
    with rest store_elements_keeps [of ?st e None vs ys None]
    show ?thesis by (auto dest: store_pointer_Crypto_keeps)
  qed simp
  with step rest recs Cons.IH [of ys] store_pointer_Crypto_mirrors [of lib v x]
  show ?case by simp
qed

lemma Decode_Crypto_mirrors:
  "Decode_Crypto lib (Document (JObject ms)) = Inr rec \<Longrightarrow> mirrors (JObject ms) (Some rec)"
  by (auto simp: Decode_Crypto_def Decode_def split: sum.splits prod.splits option.splits
      dest: store_Crypto_object)

lemma Decode_CryptoResponse_mirrors:
  assumes "Decode_CryptoResponse lib (Document (JObject [(''crypto'', JArray vs)])) = Inr resp"
    and "Crypto resp = Some recs"
  shows "list_all2 mirrors vs recs"
proof -
  from assms(1) have
    "into (\<lambda>x. \<lparr>Crypto = None\<rparr>\<lparr>Crypto := x\<rparr>)
       (into Some (store_elements (store_pointer (store_Crypto lib) (zero_Crypto lib)) None vs None))
     = Inr (resp, None)"
    by (auto simp: Decode_CryptoResponse_def Decode_def store_struct_def CryptoResponse_field_def
        store_slice_def split: sum.splits prod.splits option.splits)
  then obtain xs where
    "store_elements (store_pointer (store_Crypto lib) (zero_Crypto lib)) None vs None
       = Inr (xs, None)" and "resp = \<lparr>Crypto = Some xs\<rparr>"
    by (auto dest!: into_Inr)
  with assms(2) store_elements_mirror [of lib vs xs] show ?thesis by simp
qed

lemma UpdateManualCrypto_result:
  "r \<in> set (calls (UpdateManualCrypto lib c i crypto)) \<Longrightarrow> transport_answer c r = Some (Inr b)
     \<Longrightarrow> result (UpdateManualCrypto lib c i crypto) = Some rec
     \<Longrightarrow> Decode_Crypto lib b = Inr rec"
  by (auto simp: UpdateManualCrypto_def Let_def split: sum.splits option.splits)

lemma GetCrypto_result:
  "r \<in> set (calls (GetCrypto lib c)) \<Longrightarrow> transport_answer c r = Some (Inr b)
     \<Longrightarrow> result (GetCrypto lib c) = Some recs
     \<Longrightarrow> \<exists>resp. Decode_CryptoResponse lib b = Inr resp \<and> Crypto resp = Some recs"
  by (auto simp: GetCrypto_def Let_def split: sum.splits option.splits)

text \<open>
  Claim C9, as amended. The identifiers of every record a client method returns are
  those the server sent. When the transport answered \<open>UpdateManualCrypto\<close> with
  an object and the method returned a record, and when it answered \<open>GetCrypto\<close>
  with the envelope of an array and the method returned a list, each returned record has
  as \<open>ID\<close> the integer of the \<open>id\<close> member of its object and as
  \<open>ZaboAccountID\<close> that of its \<open>zabo_account_id\<close> member, nil for a member
  that is missing or \<open>null\<close>; the list has an entry for each element of the
  array. Nothing relates the two identifiers to each other or to \<open>Source\<close>.
\<close>

theorem returned_identifiers_mirror_response:
  "(\<forall>r ms rec. r \<in> set (calls (UpdateManualCrypto lib c i crypto))
        \<and> transport_answer c r = Some (Inr (Document (JObject ms)))
        \<and> result (UpdateManualCrypto lib c i crypto) = Some rec
      \<longrightarrow> mirrors (JObject ms) (Some rec))
   \<and> (\<forall>r vs recs. r \<in> set (calls (GetCrypto lib c))
        \<and> transport_answer c r = Some (Inr (Document (JObject [(''crypto'', JArray vs)])))
        \<and> result (GetCrypto lib c) = Some recs
      \<longrightarrow> list_all2 mirrors vs recs)"
proof (intro conjI allI impI)
  fix r ms rec
  assume "r \<in> set (calls (UpdateManualCrypto lib c i crypto))
        \<and> transport_answer c r = Some (Inr (Document (JObject ms)))
        \<and> result (UpdateManualCrypto lib c i crypto) = Some rec"
  then have "Decode_Crypto lib (Document (JObject ms)) = Inr rec"
    using UpdateManualCrypto_result by blast
  then show "mirrors (JObject ms) (Some rec)" by (rule Decode_Crypto_mirrors)
next
  fix r vs recs
  assume "r \<in> set (calls (GetCrypto lib c))
        \<and> transport_answer c r = Some (Inr (Document (JObject [(''crypto'', JArray vs)])))
        \<and> result (GetCrypto lib c) = Some recs"
  then obtain resp where
    "Decode_CryptoResponse lib (Document (JObject [(''crypto'', JArray vs)])) = Inr resp"
    and "Crypto resp = Some recs"
    using GetCrypto_result by blast
  then show "list_all2 mirrors vs recs" by (rule Decode_CryptoResponse_mirrors)
qed


lemmas decode_simps =
  Decode_CryptoResponse_def Decode_Crypto_def Decode_def store_struct_def
  CryptoResponse_field_def store_slice_def store_pointer_def store_Crypto_def Crypto_field_def
  upper_def into_def store_int_def store_string_def ParseInt64_def digits_val_def digit_val_def
  isDigit_def

text \<open>
  Claim C9 as stated fails: the server sends a manual asset with both identifiers, and
  \<open>GetCrypto\<close> returns the record with both present and no error.
\<close>

theorem both_identifiers_returned:
  "result (GetCrypto json_stdlib (serving_Client both_identifiers))
     = Some [Some ((zero_Crypto json_stdlib)
          \<lparr>Crypto.ID := Some 1, Crypto.ZaboAccountID := Some 2, Crypto.Source := ''manual''\<rparr>)]
   \<and> err (GetCrypto json_stdlib (serving_Client both_identifiers)) = None"
  by (simp add: GetCrypto_def serving_Client_def both_identifiers_def decode_simps
      Struct_CryptoResponse_def field_errors_def)

text \<open>
  The two kinds of asset of the API's documentation, a synced one with only
  \<open>zabo_account_id\<close> and a manual one with only \<open>id\<close>.
\<close>

theorem returned_identifiers_mirror_response_witness:
  "result (GetCrypto json_stdlib
       (serving_Client (Document (JObject [(''crypto'', JArray mixed_assets)]))))
     = Some [Some ((zero_Crypto json_stdlib)
               \<lparr>Crypto.ZaboAccountID := Some 544, Crypto.Source := ''synced''\<rparr>),
             Some ((zero_Crypto json_stdlib)
               \<lparr>Crypto.ID := Some 152, Crypto.Source := ''manual''\<rparr>)]
   \<and> list_all2 mirrors mixed_assets
       [Some ((zero_Crypto json_stdlib)
               \<lparr>Crypto.ZaboAccountID := Some 544, Crypto.Source := ''synced''\<rparr>),
        Some ((zero_Crypto json_stdlib)
               \<lparr>Crypto.ID := Some 152, Crypto.Source := ''manual''\<rparr>)]
   \<and> result (UpdateManualCrypto json_stdlib
       (serving_Client (Document (JObject [(''id'', JNumber ''152''), (''source'', JString ''manual'')])))
       152 (Some empty_UpdateCrypto))
     = Some ((zero_Crypto json_stdlib)\<lparr>Crypto.ID := Some 152, Crypto.Source := ''manual''\<rparr>)
   \<and> mirrors (JObject [(''id'', JNumber ''152''), (''source'', JString ''manual'')])
       (Some ((zero_Crypto json_stdlib)\<lparr>Crypto.ID := Some 152, Crypto.Source := ''manual''\<rparr>))"
proof -
  let ?b1 = "Document (JObject [(''crypto'', JArray mixed_assets)])"
  let ?ms = "[(''id'', JNumber ''152''), (''source'', JString ''manual'')]"
  let ?b2 = "Document (JObject ?ms)"
  let ?recs = "[Some ((zero_Crypto json_stdlib)
               \<lparr>Crypto.ZaboAccountID := Some 544, Crypto.Source := ''synced''\<rparr>),
             Some ((zero_Crypto json_stdlib)
               \<lparr>Crypto.ID := Some 152, Crypto.Source := ''manual''\<rparr>)]"
  let ?rec = "(zero_Crypto json_stdlib)\<lparr>Crypto.ID := Some 152, Crypto.Source := ''manual''\<rparr>"
  have g: "GetCrypto json_stdlib (serving_Client ?b1)
             = \<lparr>result = Some ?recs, err = None,
                calls = [Http_Get ''/v1/crypto'' Map.empty,
                         Json_Decode ''*lunchmoney.CryptoResponse'',
                         Validate_Struct ''*lunchmoney.CryptoResponse'']\<rparr>"
    by (simp add: GetCrypto_def serving_Client_def mixed_assets_def decode_simps
        Struct_CryptoResponse_def field_errors_def)
  have u: "UpdateManualCrypto json_stdlib (serving_Client ?b2) 152 (Some empty_UpdateCrypto)
             = \<lparr>result = Some ?rec, err = None,
                calls = [Validate_Struct ''*lunchmoney.UpdateCrypto'',
                         Http_Put ''/v1/crypto/manual/152'' (Body_UpdateCrypto (Some empty_UpdateCrypto)),
                         Json_Decode ''*lunchmoney.Crypto'']\<rparr>"
    by (simp add: UpdateManualCrypto_def serving_Client_def decode_simps itoa_152
        Struct_UpdateCrypto_def field_errors_def)
  have a1: "transport_answer (serving_Client ?b1) (Http_Get ''/v1/crypto'' Map.empty)
              = Some (Inr ?b1)"
    and a2: "transport_answer (serving_Client ?b2)
               (Http_Put ''/v1/crypto/manual/152'' (Body_UpdateCrypto (Some empty_UpdateCrypto)))
              = Some (Inr ?b2)"
    by (simp_all add: serving_Client_def)
  have m1: "Http_Get ''/v1/crypto'' Map.empty
              \<in> set (calls (GetCrypto json_stdlib (serving_Client ?b1)))"
    and res1: "result (GetCrypto json_stdlib (serving_Client ?b1)) = Some ?recs"
    by (simp_all add: g)
  have m2: "Http_Put ''/v1/crypto/manual/152'' (Body_UpdateCrypto (Some empty_UpdateCrypto))
              \<in> set (calls (UpdateManualCrypto json_stdlib (serving_Client ?b2) 152
                    (Some empty_UpdateCrypto)))"
    and res2: "result (UpdateManualCrypto json_stdlib (serving_Client ?b2) 152
                 (Some empty_UpdateCrypto)) = Some ?rec"
    by (simp_all add: u)
  from returned_identifiers_mirror_response
    [of json_stdlib "serving_Client ?b1" 152 "Some empty_UpdateCrypto"] m1 a1 res1
  have r1: "list_all2 mirrors mixed_assets ?recs"
    by blast
  from returned_identifiers_mirror_response
    [of json_stdlib "serving_Client ?b2" 152 "Some empty_UpdateCrypto"] m2 a2 res2
  have r2: "mirrors (JObject ?ms) (Some ?rec)"
    by blast
  from res1 res2 r1 r2 show ?thesis by blast
qed

end
